theory Spec2Isabelle
  imports Main "HOL-Library.AList"
begin

section \<open>JavaScript values and objects\<close>

text \<open>
  The daemon handles plain JavaScript objects (an email record, a webhook payload, the
  persisted state).  An object is an association list from property names to values, in
  insertion order.  A value is what JSON can carry: \<open>null\<close>, a boolean, an integer
  number, a string, an array, or a nested object (\<open>JObj\<close>, whose content plays no
  part here).
  Reading a property that the object does not have gives \<open>undefined\<close>, which is
  \<open>None\<close> here.  Strings are lists of characters, one \<open>char\<close> per code unit below
  256.
\<close>

datatype json = JNull | JBool bool | JInt int | JStr string | JArr "json list" | JObj

type_synonym obj = "(string \<times> json) list"

definition jget :: "obj \<Rightarrow> string \<Rightarrow> json option" where
  "jget ob k = map_of ob k"

text \<open>\<open>!!v\<close>: the values JavaScript treats as true in a condition.\<close>

fun truthy :: "json option \<Rightarrow> bool" where
  "truthy None = False"
| "truthy (Some JNull) = False"
| "truthy (Some (JBool b)) = b"
| "truthy (Some (JInt n)) = (n \<noteq> 0)"
| "truthy (Some (JStr s)) = (s \<noteq> [])"
| "truthy (Some (JArr xs)) = True"
| "truthy (Some JObj) = True"

text \<open>\<open>typeof v === 'string'\<close>\<close>

fun is_string :: "json option \<Rightarrow> bool" where
  "is_string (Some (JStr s)) = True"
| "is_string _ = False"

text \<open>\<open>v === null || v === undefined\<close>\<close>

fun nullish :: "json option \<Rightarrow> bool" where
  "nullish None = True"
| "nullish (Some JNull) = True"
| "nullish _ = False"

subsection \<open>Decimal text of an integer\<close>

text \<open>\<open>String(n)\<close> in JavaScript and \<open>CAST(n AS TEXT)\<close> in SQLite, for an integer.\<close>

definition digit_char :: "nat \<Rightarrow> char" where
  "digit_char d = char_of (48 + d)"

fun dec_nat :: "nat \<Rightarrow> string" where
  "dec_nat n = (if n < 10 then [digit_char n] else dec_nat (n div 10) @ [digit_char (n mod 10)])"

declare dec_nat.simps [simp del]

definition dec :: "int \<Rightarrow> string" where
  "dec i = (if i < 0 then CHR ''-'' # dec_nat (nat (- i)) else dec_nat (nat i))"

section \<open>The store: database.js\<close>

subsection \<open>Errors\<close>

text \<open>
  Every \<open>throw\<close> of the source is a value of this type.  The wrappers
  \<open>new Error(`Email insertion failed: ${error.message}`)\<close> and the like keep the error
  they wrap, so that a later test on the message text can look inside.
\<close>

datatype error =
    SqliteBindError
  | SqliteRangeError
  | TypeError string
  | NotNullConstraint string
  | UniqueConstraint string
  | TableExists string
  | NoSuchTable string
  | IndexExists string
  | NoTransaction
  | NestedTransaction
  | MigrationValidationFailed nat nat
  | SchemaMigrationFailed error
  | DatabaseInitFailed error
  | EmailInsertionFailed error
  | EmailQueryFailed error
  | EmailCountFailed error
  | FileNotFound string
  | JsonSyntaxError
  | StateInvalid string
  | StateReadFailed error
  | StateUpdateFailed error
  | StateInitFailed error
  | ImapError string
  | ParseError string
  | RecordInvalid string
  | NoSuchColumn string
  | DatabaseClosed

subsection \<open>Rows of the current layout\<close>

text \<open>
  The table \<open>emails\<close> as \<open>CREATE TABLE\<close> declares it: ten \<open>TEXT\<close> columns, all
  \<open>NOT NULL\<close> except \<open>cc_address\<close>, with \<open>id\<close> the primary key.  A row holds a text
  in each \<open>NOT NULL\<close> column and a text or \<open>NULL\<close> in \<open>cc_address\<close>.  The table
  is the list of its rows in insertion order.
\<close>

record email_row =
  row_id :: string
  thread_id :: string
  received_at :: string
  downloaded_at :: string
  from_address :: string
  to_address :: string
  cc_address :: "string option"
  subject :: string
  labels :: string
  body :: string

type_synonym emails_table = "email_row list"

text \<open>
  Binding one JavaScript value to a statement parameter, as the SQLite driver does: a
  string is bound as text, \<open>null\<close> and \<open>undefined\<close> as \<open>NULL\<close>; a number is
  bound as a floating-point number, which a \<open>TEXT\<close> column stores as its text, for
  an integer \<open>5\<close> the text \<open>5.0\<close> (this is the form for integers of less than
  sixteen digits; no larger number occurs below); a boolean, an array or an object cannot
  be bound to one parameter and the driver throws.
\<close>

definition number_text :: "int \<Rightarrow> string" where
  "number_text n = dec n @ ''.0''"

fun sql_bind :: "json option \<Rightarrow> error + string option" where
  "sql_bind None = Inr None"
| "sql_bind (Some JNull) = Inr None"
| "sql_bind (Some (JStr s)) = Inr (Some s)"
| "sql_bind (Some (JInt n)) = Inr (Some (number_text n))"
| "sql_bind (Some (JBool b)) = Inl SqliteBindError"
| "sql_bind (Some (JArr xs)) = Inl SqliteBindError"
| "sql_bind (Some JObj) = Inl SqliteBindError"

text \<open>Binding values to consecutive parameters; the first failure throws.\<close>

fun bind_all :: "json option list \<Rightarrow> error + string option list" where
  "bind_all [] = Inr []"
| "bind_all (v # vs) =
     (case sql_bind v of
        Inl e \<Rightarrow> Inl e
      | Inr b \<Rightarrow> (case bind_all vs of Inl e \<Rightarrow> Inl e | Inr bs \<Rightarrow> Inr (b # bs)))"

text \<open>
  The arguments of \<open>stmt.get(...)\<close> and \<open>stmt.run(...)\<close>, from left to right: an
  array argument gives its elements to the next parameters, one each; a plain object
  holds named parameters, of which these statements have none, and a second such object
  is refused; any other argument is bound to the next parameter.  The flag says whether
  an object was met already.  The statement then runs only if the number of values is
  the number of its parameters.
\<close>

fun bind_from :: "bool \<Rightarrow> json option list \<Rightarrow> error + string option list" where
  "bind_from ob [] = Inr []"
| "bind_from ob (Some (JArr xs) # args) =
     (case bind_all (map Some xs) of
        Inl e \<Rightarrow> Inl e
      | Inr vs \<Rightarrow> (case bind_from ob args of Inl e \<Rightarrow> Inl e | Inr ws \<Rightarrow> Inr (vs @ ws)))"
| "bind_from ob (Some JObj # args) =
     (if ob then Inl SqliteBindError else bind_from True args)"
| "bind_from ob (a # args) =
     (case sql_bind a of
        Inl e \<Rightarrow> Inl e
      | Inr v \<Rightarrow> (case bind_from ob args of Inl e \<Rightarrow> Inl e | Inr ws \<Rightarrow> Inr (v # ws)))"

definition bind_args :: "nat \<Rightarrow> json option list \<Rightarrow> error + string option list" where
  "bind_args parameters args =
     (case bind_from False args of
        Inl e \<Rightarrow> Inl e
      | Inr vs \<Rightarrow> if length vs = parameters then Inr vs else Inl SqliteRangeError)"

text \<open>\<open>SELECT 1 FROM emails WHERE id = ?\<close>: a \<open>NULL\<close> parameter equals no row.\<close>

definition select_exists :: "emails_table \<Rightarrow> string option \<Rightarrow> bool" where
  "select_exists db i = (case i of None \<Rightarrow> False | Some s \<Rightarrow> s \<in> set (map row_id db))"

text \<open>
  \<open>INSERT INTO emails (id, thread_id, ...) VALUES (?, ..., ?)\<close> on bound values: the
  \<open>NOT NULL\<close> constraints in column order, then the primary key.
\<close>

definition insert_values :: "emails_table \<Rightarrow> string option list \<Rightarrow> error + emails_table" where
  "insert_values db vs =
     (case vs of
        [i, t, r, d, f, ta, cc, s, l, b] \<Rightarrow>
          (case i of None \<Rightarrow> Inl (NotNullConstraint ''id'') | Some i' \<Rightarrow>
           case t of None \<Rightarrow> Inl (NotNullConstraint ''thread_id'') | Some t' \<Rightarrow>
           case r of None \<Rightarrow> Inl (NotNullConstraint ''received_at'') | Some r' \<Rightarrow>
           case d of None \<Rightarrow> Inl (NotNullConstraint ''downloaded_at'') | Some d' \<Rightarrow>
           case f of None \<Rightarrow> Inl (NotNullConstraint ''from_address'') | Some f' \<Rightarrow>
           case ta of None \<Rightarrow> Inl (NotNullConstraint ''to_address'') | Some ta' \<Rightarrow>
           case s of None \<Rightarrow> Inl (NotNullConstraint ''subject'') | Some s' \<Rightarrow>
           case l of None \<Rightarrow> Inl (NotNullConstraint ''labels'') | Some l' \<Rightarrow>
           case b of None \<Rightarrow> Inl (NotNullConstraint ''body'') | Some b' \<Rightarrow>
           if i' \<in> set (map row_id db) then Inl (UniqueConstraint ''id'')
           else Inr (db @ [\<lparr>row_id = i', thread_id = t', received_at = r',
                            downloaded_at = d', from_address = f', to_address = ta',
                            cc_address = cc, subject = s', labels = l', body = b'\<rparr>]))
      | _ \<Rightarrow> Inl SqliteRangeError)"

subsection \<open>storeEmail, getEmailById, countEmails\<close>

text \<open>
  The handle that \<open>initDatabase\<close> returns and the other functions take: the rows of
  \<open>emails\<close>, and whether the connection is still open.  After \<open>closeDatabase\<close>
  every statement on the handle throws.
\<close>

record db_handle =
  is_open :: bool
  rows :: emails_table

text \<open>
  \<open>storeEmail(db, email)\<close>: look the id up; a row with that id means \<open>false\<close> and no
  write; otherwise insert, with \<open>email.thread_id || ''\<close> for the thread.  Anything
  thrown inside is rethrown as \<open>Email insertion failed\<close>.  The result carries the
  returned boolean and the handle after the call.
\<close>

definition storeEmail :: "db_handle \<Rightarrow> obj \<Rightarrow> error + (bool \<times> db_handle)" where
  "storeEmail db email =
     (if \<not> is_open db then Inl (EmailInsertionFailed DatabaseClosed)
      else
        case bind_args 1 [jget email ''id''] of
          Inl e \<Rightarrow> Inl (EmailInsertionFailed e)
        | Inr ids \<Rightarrow>
            if select_exists (rows db) (hd ids) then Inr (False, db)
            else
              (case bind_args 10
                      [jget email ''id'',
                       (if truthy (jget email ''thread_id'') then jget email ''thread_id''
                        else Some (JStr [])),
                       jget email ''received_at'',
                       jget email ''downloaded_at'',
                       jget email ''from_address'',
                       jget email ''to_address'',
                       jget email ''cc_address'',
                       jget email ''subject'',
                       jget email ''labels'',
                       jget email ''body''] of
                 Inl e \<Rightarrow> Inl (EmailInsertionFailed e)
               | Inr vs \<Rightarrow>
                   (case insert_values (rows db) vs of
                      Inl e \<Rightarrow> Inl (EmailInsertionFailed e)
                    | Inr rows' \<Rightarrow> Inr (True, db\<lparr>rows := rows'\<rparr>))))"

text \<open>\<open>SELECT * FROM emails WHERE id = ?\<close>, first row or \<open>null\<close>.\<close>

definition getEmailById :: "db_handle \<Rightarrow> string \<Rightarrow> error + email_row option" where
  "getEmailById db i =
     (if \<not> is_open db then Inl (EmailQueryFailed DatabaseClosed)
      else Inr (find (\<lambda>r. row_id r = i) (rows db)))"

text \<open>\<open>SELECT COUNT(*) FROM emails\<close>\<close>

definition countEmails :: "db_handle \<Rightarrow> error + nat" where
  "countEmails db =
     (if \<not> is_open db then Inl (EmailCountFailed DatabaseClosed)
      else Inr (length (rows db)))"

text \<open>\<open>closeDatabase(db)\<close>\<close>

definition closeDatabase :: "db_handle \<Rightarrow> db_handle" where
  "closeDatabase db = db\<lparr>is_open := False\<rparr>"

text \<open>
  A Message as the data model has it: every field except \<open>cc\<close> is a string, and
  \<open>cc\<close> is a string, \<open>null\<close> or absent.
\<close>

definition is_message :: "obj \<Rightarrow> bool" where
  "is_message m \<longleftrightarrow>
     list_all (\<lambda>k. is_string (jget m k))
       [''id'', ''thread_id'', ''received_at'', ''downloaded_at'', ''from_address'',
        ''to_address'', ''subject'', ''labels'', ''body'']
     \<and> (nullish (jget m ''cc_address'') \<or> is_string (jget m ''cc_address''))"

text \<open>The text of a string property, and the row a Message is stored as.\<close>

fun str_of :: "json option \<Rightarrow> string" where
  "str_of (Some (JStr s)) = s"
| "str_of _ = []"

fun opt_str_of :: "json option \<Rightarrow> string option" where
  "opt_str_of (Some (JStr s)) = Some s"
| "opt_str_of _ = None"

definition row_of :: "obj \<Rightarrow> email_row" where
  "row_of m =
     \<lparr>row_id = str_of (jget m ''id''), thread_id = str_of (jget m ''thread_id''),
      received_at = str_of (jget m ''received_at''),
      downloaded_at = str_of (jget m ''downloaded_at''),
      from_address = str_of (jget m ''from_address''),
      to_address = str_of (jget m ''to_address''),
      cc_address = opt_str_of (jget m ''cc_address''),
      subject = str_of (jget m ''subject''), labels = str_of (jget m ''labels''),
      body = str_of (jget m ''body'')\<rparr>"

subsection \<open>The database file, the legacy layout and transactions\<close>

text \<open>
  The legacy layout that the migration reads: the same columns without \<open>thread_id\<close>,
  in the old order, with an \<open>INTEGER\<close> primary key \<open>id\<close>.  A text column of a
  legacy row holds a text or \<open>NULL\<close>.
\<close>

record old_row =
  o_id :: int
  o_from_address :: "string option"
  o_to_address :: "string option"
  o_cc_address :: "string option"
  o_subject :: "string option"
  o_body :: "string option"
  o_received_at :: "string option"
  o_labels :: "string option"
  o_downloaded_at :: "string option"

datatype layout_table = OldLayout "old_row list" | NewLayout "email_row list"

text \<open>
  The database file: the table \<open>emails\<close> in one of the two layouts (or absent), the
  table \<open>emails_new\<close> that the migration builds (or absent), and the names of the
  indexes on \<open>emails\<close>.  A connection is the database together with the snapshot taken
  by \<open>BEGIN\<close> while a transaction is open.
\<close>

record database =
  emails :: "layout_table option"
  emails_new :: "emails_table option"
  indexes :: "string list"

type_synonym conn = "database \<times> database option"

text \<open>\<open>PRAGMA table_info(emails)\<close>: column names and declared types.\<close>

fun table_info :: "layout_table \<Rightarrow> (string \<times> string) list" where
  "table_info (OldLayout rs) =
     [(''id'', ''INTEGER''), (''from_address'', ''TEXT''), (''to_address'', ''TEXT''),
      (''cc_address'', ''TEXT''), (''subject'', ''TEXT''), (''body'', ''TEXT''),
      (''received_at'', ''TEXT''), (''labels'', ''TEXT''), (''downloaded_at'', ''TEXT'')]"
| "table_info (NewLayout rs) =
     [(''id'', ''TEXT''), (''thread_id'', ''TEXT''), (''received_at'', ''TEXT''),
      (''downloaded_at'', ''TEXT''), (''from_address'', ''TEXT''), (''to_address'', ''TEXT''),
      (''cc_address'', ''TEXT''), (''subject'', ''TEXT''), (''labels'', ''TEXT''),
      (''body'', ''TEXT'')]"

text \<open>
  \<open>needsMigration(db)\<close>: no table, no migration; otherwise the \<open>id\<close> column must be
  declared \<open>INTEGER\<close> and there must be no \<open>thread_id\<close> column.
\<close>

definition needsMigration :: "database \<Rightarrow> bool" where
  "needsMigration d =
     (case emails d of
        None \<Rightarrow> False
      | Some t \<Rightarrow>
          (let tableInfo = table_info t;
               idColumn = find (\<lambda>col. fst col = ''id'') tableInfo;
               hasThreadId = list_ex (\<lambda>col. fst col = ''thread_id'') tableInfo
           in case idColumn of
                None \<Rightarrow> False
              | Some col \<Rightarrow> snd col = ''INTEGER'' \<and> \<not> hasThreadId))"

text \<open>The statements the module runs; each either changes the connection or throws.\<close>

fun sql_begin :: "conn \<Rightarrow> error + conn" where
  "sql_begin (d, None) = Inr (d, Some d)"
| "sql_begin (d, Some s) = Inl NestedTransaction"

fun sql_commit :: "conn \<Rightarrow> error + conn" where
  "sql_commit (d, Some s) = Inr (d, None)"
| "sql_commit (d, None) = Inl NoTransaction"

fun sql_rollback :: "conn \<Rightarrow> error + conn" where
  "sql_rollback (d, Some s) = Inr (s, None)"
| "sql_rollback (d, None) = Inl NoTransaction"

text \<open>\<open>CREATE TABLE emails_new (...)\<close>\<close>

fun create_emails_new :: "conn \<Rightarrow> error + conn" where
  "create_emails_new (d, t) =
     (if emails_new d \<noteq> None then Inl (TableExists ''emails_new'')
      else Inr (d\<lparr>emails_new := Some []\<rparr>, t))"

text \<open>
  The \<open>SELECT CAST(id AS TEXT) as id, '' as thread_id, received_at, ... FROM emails\<close>
  of the migration, one row at a time, in the column order of the new table.
\<close>

definition select_old :: "old_row \<Rightarrow> string option list" where
  "select_old r =
     [Some (dec (o_id r)), Some [], o_received_at r, o_downloaded_at r, o_from_address r,
      o_to_address r, o_cc_address r, o_subject r, o_labels r, o_body r]"

definition select_new :: "email_row \<Rightarrow> string option list" where
  "select_new r =
     [Some (row_id r), Some [], Some (received_at r), Some (downloaded_at r),
      Some (from_address r), Some (to_address r), cc_address r, Some (subject r),
      Some (labels r), Some (body r)]"

fun insert_all :: "emails_table \<Rightarrow> string option list list \<Rightarrow> error + emails_table" where
  "insert_all t [] = Inr t"
| "insert_all t (v # vs) =
     (case insert_values t v of Inl e \<Rightarrow> Inl e | Inr t' \<Rightarrow> insert_all t' vs)"

text \<open>
  \<open>INSERT INTO emails_new SELECT ... FROM emails\<close>.  A constraint that fails on any
  row fails the whole statement, which then leaves \<open>emails_new\<close> as it was.
\<close>

fun copy_rows :: "conn \<Rightarrow> error + conn" where
  "copy_rows (d, t) =
     (case emails_new d of
        None \<Rightarrow> Inl (NoSuchTable ''emails_new'')
      | Some new \<Rightarrow>
          (case emails d of
             None \<Rightarrow> Inl (NoSuchTable ''emails'')
           | Some tbl \<Rightarrow>
               (case insert_all new
                       (case tbl of OldLayout rs \<Rightarrow> map select_old rs
                                  | NewLayout rs \<Rightarrow> map select_new rs) of
                  Inl e \<Rightarrow> Inl e
                | Inr new' \<Rightarrow> Inr (d\<lparr>emails_new := Some new'\<rparr>, t))))"

text \<open>\<open>DROP TABLE emails\<close> drops the table and its indexes.\<close>

fun drop_emails :: "conn \<Rightarrow> error + conn" where
  "drop_emails (d, t) =
     (if emails d = None then Inl (NoSuchTable ''emails'')
      else Inr (d\<lparr>emails := None, indexes := []\<rparr>, t))"

text \<open>\<open>ALTER TABLE emails_new RENAME TO emails\<close>\<close>

fun rename_new :: "conn \<Rightarrow> error + conn" where
  "rename_new (d, t) =
     (case emails_new d of
        None \<Rightarrow> Inl (NoSuchTable ''emails_new'')
      | Some new \<Rightarrow>
          if emails d \<noteq> None then Inl (TableExists ''emails'')
          else Inr (d\<lparr>emails := Some (NewLayout new), emails_new := None\<rparr>, t))"

text \<open>\<open>CREATE INDEX name ON emails(column)\<close>\<close>

fun create_index :: "string \<Rightarrow> string \<Rightarrow> conn \<Rightarrow> error + conn" where
  "create_index name column (d, t) =
     (if name \<in> set (indexes d) then Inl (IndexExists name)
      else case emails d of
             None \<Rightarrow> Inl (NoSuchTable ''emails'')
           | Some tbl \<Rightarrow>
               if column \<notin> set (map fst (table_info tbl)) then Inl (NoSuchColumn column)
               else Inr (d\<lparr>indexes := indexes d @ [name]\<rparr>, t))"

text \<open>\<open>CREATE INDEX IF NOT EXISTS name ON emails(column)\<close>\<close>

fun create_index_if_not_exists :: "string \<Rightarrow> string \<Rightarrow> conn \<Rightarrow> error + conn" where
  "create_index_if_not_exists name column (d, t) =
     (if name \<in> set (indexes d) then Inr (d, t) else create_index name column (d, t))"

text \<open>\<open>CREATE TABLE IF NOT EXISTS emails (...)\<close> in the current layout.\<close>

fun create_emails_if_not_exists :: "conn \<Rightarrow> error + conn" where
  "create_emails_if_not_exists (d, t) =
     (if emails d \<noteq> None then Inr (d, t) else Inr (d\<lparr>emails := Some (NewLayout [])\<rparr>, t))"

text \<open>\<open>SELECT COUNT(*) as count FROM emails\<close> and \<open>... FROM emails_new\<close>\<close>

definition count_emails :: "conn \<Rightarrow> error + nat" where
  "count_emails c =
     (case emails (fst c) of
        None \<Rightarrow> Inl (NoSuchTable ''emails'')
      | Some (OldLayout rs) \<Rightarrow> Inr (length rs)
      | Some (NewLayout rs) \<Rightarrow> Inr (length rs))"

definition count_emails_new :: "conn \<Rightarrow> error + nat" where
  "count_emails_new c =
     (case emails_new (fst c) of
        None \<Rightarrow> Inl (NoSuchTable ''emails_new'')
      | Some rs \<Rightarrow> Inr (length rs))"

text \<open>
  \<open>db.exec(script)\<close>: the statements in order; the first one that throws stops the
  script, and what the earlier ones did stays (inside the open transaction, if any).
\<close>

fun exec :: "(conn \<Rightarrow> error + conn) list \<Rightarrow> conn \<Rightarrow> error option \<times> conn" where
  "exec [] c = (None, c)"
| "exec (s # ss) c = (case s c of Inl e \<Rightarrow> (Some e, c) | Inr c' \<Rightarrow> exec ss c')"

subsection \<open>migrateSchema and initDatabase\<close>

text \<open>
  The three scripts that \<open>migrateSchema\<close> hands to \<open>db.exec\<close>: build and fill
  \<open>emails_new\<close> in one transaction; swap the tables in a second one; create the
  indexes.
\<close>

definition copy_script :: "(conn \<Rightarrow> error + conn) list" where
  "copy_script = [sql_begin, create_emails_new, copy_rows, sql_commit]"

definition swap_script :: "(conn \<Rightarrow> error + conn) list" where
  "swap_script = [sql_begin, drop_emails, rename_new, sql_commit]"

definition index_script :: "(conn \<Rightarrow> error + conn) list" where
  "index_script =
     [create_index ''idx_downloaded_at'' ''downloaded_at'',
      create_index ''idx_from_address'' ''from_address'',
      create_index ''idx_thread_id'' ''thread_id'']"

text \<open>
  The \<open>try\<close> block of \<open>migrateSchema\<close>: count the old rows, run the copy script,
  count the new rows and compare, run the swap script, run the index script.  The result
  is the error thrown, if any, and the connection at that point.
\<close>

definition migrate_steps :: "conn \<Rightarrow> error option \<times> conn" where
  "migrate_steps c =
     (case count_emails c of
        Inl e \<Rightarrow> (Some e, c)
      | Inr oldCount \<Rightarrow>
          (case exec copy_script c of
             (Some e, c1) \<Rightarrow> (Some e, c1)
           | (None, c1) \<Rightarrow>
               (case count_emails_new c1 of
                  Inl e \<Rightarrow> (Some e, c1)
                | Inr newCount \<Rightarrow>
                    if oldCount \<noteq> newCount
                    then (Some (MigrationValidationFailed oldCount newCount), c1)
                    else
                      (case exec swap_script c1 of
                         (Some e, c2) \<Rightarrow> (Some e, c2)
                       | (None, c2) \<Rightarrow> exec index_script c2))))"

text \<open>
  \<open>migrateSchema(db)\<close>: on an error, try \<open>ROLLBACK\<close> (ignoring its failure) and
  rethrow as \<open>Schema migration failed\<close>.
\<close>

definition migrateSchema :: "conn \<Rightarrow> error option \<times> conn" where
  "migrateSchema c =
     (case migrate_steps c of
        (None, c') \<Rightarrow> (None, c')
      | (Some e, c') \<Rightarrow>
          (Some (SchemaMigrationFailed e),
           (case sql_rollback c' of Inl _ \<Rightarrow> c' | Inr c'' \<Rightarrow> c'')))"

text \<open>
  \<open>initDatabase(dbPath)\<close> on the database file \<open>d\<close>: open a connection, migrate if
  needed, create the table and the indexes if they are missing.  The result is the error
  thrown (startup stops), if any, and the database as the call leaves it.
\<close>

definition initDatabase :: "database \<Rightarrow> error option \<times> conn" where
  "initDatabase d =
     (case (if needsMigration d then migrateSchema (d, None) else (None, (d, None))) of
        (Some e, c) \<Rightarrow> (Some (DatabaseInitFailed e), c)
      | (None, c) \<Rightarrow>
          (case exec [create_emails_if_not_exists,
                      create_index_if_not_exists ''idx_downloaded_at'' ''downloaded_at'',
                      create_index_if_not_exists ''idx_from_address'' ''from_address'',
                      create_index_if_not_exists ''idx_thread_id'' ''thread_id''] c of
             (Some e, c') \<Rightarrow> (Some (DatabaseInitFailed e), c')
           | (None, c') \<Rightarrow> (None, c')))"

text \<open>The row a legacy row becomes, when none of its mandatory columns is \<open>NULL\<close>.\<close>

definition copyable :: "old_row \<Rightarrow> bool" where
  "copyable r \<longleftrightarrow>
     o_received_at r \<noteq> None \<and> o_downloaded_at r \<noteq> None \<and> o_from_address r \<noteq> None \<and>
     o_to_address r \<noteq> None \<and> o_subject r \<noteq> None \<and> o_labels r \<noteq> None \<and> o_body r \<noteq> None"

definition migrated :: "old_row \<Rightarrow> email_row" where
  "migrated r =
     \<lparr>row_id = dec (o_id r), thread_id = [], received_at = the (o_received_at r),
      downloaded_at = the (o_downloaded_at r), from_address = the (o_from_address r),
      to_address = the (o_to_address r), cc_address = o_cc_address r,
      subject = the (o_subject r), labels = the (o_labels r), body = the (o_body r)\<rparr>"

text \<open>The database after a migration that produced the rows \<open>new\<close>.\<close>

definition migrated_db :: "database \<Rightarrow> email_row list \<Rightarrow> database" where
  "migrated_db d new =
     d\<lparr>emails := Some (NewLayout new), emails_new := None,
       indexes := [''idx_downloaded_at'', ''idx_from_address'', ''idx_thread_id'']\<rparr>"

text \<open>
  A migrated row preserves a legacy row: the identifier is its decimal text, the thread
  is empty, every other column holds what the legacy column held.
\<close>

definition preserves :: "old_row \<Rightarrow> email_row \<Rightarrow> bool" where
  "preserves r n \<longleftrightarrow>
     row_id n = dec (o_id r) \<and> thread_id n = [] \<and>
     o_received_at r = Some (received_at n) \<and> o_downloaded_at r = Some (downloaded_at n) \<and>
     o_from_address r = Some (from_address n) \<and> o_to_address r = Some (to_address n) \<and>
     o_cc_address r = cc_address n \<and> o_subject r = Some (subject n) \<and>
     o_labels r = Some (labels n) \<and> o_body r = Some (body n)"

subsection \<open>Example data\<close>

definition msgA :: obj where
  "msgA = [(''id'', JStr ''m-1''), (''thread_id'', JStr ''t-1''),
           (''received_at'', JStr ''2025-11-01T10:00:00.000Z''),
           (''downloaded_at'', JStr ''2025-11-01T10:00:05.000Z''),
           (''from_address'', JStr ''alice@example.com''),
           (''to_address'', JStr ''bob@example.com''),
           (''subject'', JStr ''Hello''), (''labels'', JStr ''[]''), (''body'', JStr ''A'')]"

definition legacy_row :: "int \<Rightarrow> string \<Rightarrow> old_row" where
  "legacy_row i b =
     \<lparr>o_id = i, o_from_address = Some ''alice@example.com'',
      o_to_address = Some ''bob@example.com'', o_cc_address = None,
      o_subject = Some ''Hello'', o_body = Some b,
      o_received_at = Some ''2025-10-01T08:00:00.000Z'', o_labels = Some ''[]'',
      o_downloaded_at = Some ''2025-10-01T08:00:03.000Z''\<rparr>"

definition legacy_db :: database where
  "legacy_db =
     \<lparr>emails = Some (OldLayout [legacy_row 41 ''first'', legacy_row 42 ''second'']),
      emails_new = None, indexes = [''idx_received_at'', ''idx_from_address'']\<rparr>"

text \<open>The example legacy database as the copy script of the migration leaves it.\<close>

definition copied_db :: database where
  "copied_db =
     legacy_db\<lparr>emails_new :=
                 Some [migrated (legacy_row 41 ''first''), migrated (legacy_row 42 ''second'')]\<rparr>"

section \<open>The state tracker: state-manager.js\<close>

subsection \<open>Files\<close>

text \<open>
  The state file holds JSON text.  What matters of a file is what \<open>JSON.parse\<close> makes
  of it: an object, or nothing usable (\<open>Garbage\<close>: not JSON, or JSON that is not an
  object; a half-written file is of this kind).  \<open>JSON.stringify\<close> followed by
  \<open>JSON.parse\<close> gives the object back.  The file system maps paths to files.
\<close>

datatype file_data = Json obj | Garbage

type_synonym filesys = "string \<Rightarrow> file_data option"

definition INITIAL_STATE :: obj where
  "INITIAL_STATE =
     [(''last_uid'', JInt 0),
      (''last_uid_received_at'', JStr ''1970-01-01T00:00:00.000Z''),
      (''last_connected_at'', JStr ''1970-01-01T00:00:00.000Z''),
      (''last_error'', JNull),
      (''connection_status'', JStr ''disconnected'')]"

text \<open>
  \<open>validateState(state)\<close>, check by check in the order of the source: every required
  field present, \<open>last_uid\<close> a non-negative integer, \<open>connection_status\<close> one of the
  three phases, the two dates non-empty strings, \<open>last_error\<close> a string or \<open>null\<close>.
  \<open>state_problem\<close> is the message of the first check that fails; \<open>validateState\<close>
  throws it or returns the state.
\<close>

definition state_problem :: "obj \<Rightarrow> string option" where
  "state_problem state =
     (case find (\<lambda>field. jget state field = None)
             [''last_uid'', ''last_uid_received_at'', ''last_connected_at'', ''last_error'',
              ''connection_status''] of
        Some field \<Rightarrow> Some (''Missing required field: '' @ field)
      | None \<Rightarrow>
          if \<not> (case jget state ''last_uid'' of Some (JInt n) \<Rightarrow> 0 \<le> n | _ \<Rightarrow> False)
          then Some ''last_uid must be a non-negative integer''
          else if jget state ''connection_status''
                    \<notin> set (map (\<lambda>s. Some (JStr s)) [''connected'', ''reconnecting'', ''disconnected''])
          then Some ''connection_status must be one of: connected, reconnecting, disconnected''
          else if \<not> truthy (jget state ''last_uid_received_at'')
                  \<or> \<not> is_string (jget state ''last_uid_received_at'')
          then Some ''last_uid_received_at must be a valid ISO 8601 string''
          else if \<not> truthy (jget state ''last_connected_at'')
                  \<or> \<not> is_string (jget state ''last_connected_at'')
          then Some ''last_connected_at must be a valid ISO 8601 string''
          else if jget state ''last_error'' \<noteq> Some JNull \<and> \<not> is_string (jget state ''last_error'')
          then Some ''last_error must be a string or null''
          else None)"

definition validateState :: "obj \<Rightarrow> error + obj" where
  "validateState state =
     (case state_problem state of
        Some message \<Rightarrow> Inl (StateInvalid message)
      | None \<Rightarrow> Inr state)"

text \<open>\<open>readState(stateFilePath)\<close>: read, parse, validate; any failure is rethrown.\<close>

definition readState :: "filesys \<Rightarrow> string \<Rightarrow> error + obj" where
  "readState fs stateFilePath =
     (case fs stateFilePath of
        None \<Rightarrow> Inl (StateReadFailed (FileNotFound stateFilePath))
      | Some Garbage \<Rightarrow> Inl (StateReadFailed JsonSyntaxError)
      | Some (Json state) \<Rightarrow>
          (case validateState state of
             Inl e \<Rightarrow> Inl (StateReadFailed e)
           | Inr s \<Rightarrow> Inr s))"

text \<open>
  The object spread \<open>{ ...currentState, ...updates }\<close>: the properties of
  \<open>updates\<close>, from left to right, each replacing the value of a key that is there or
  adding the key at the end.
\<close>

definition spread :: "obj \<Rightarrow> obj \<Rightarrow> obj" where
  "spread currentState updates = fold (\<lambda>(k, v). AList.update k v) updates currentState"

text \<open>
  \<open>writeStateAtomic\<close>: write the JSON to \<open>stateFilePath + '.tmp'\<close>, then rename the
  temporary file over the state file.  \<open>renameSync\<close> throws when its source is
  missing; the \<open>catch\<close> removes the temporary file and rethrows.
\<close>

definition writeFileSync :: "string \<Rightarrow> file_data \<Rightarrow> filesys \<Rightarrow> filesys" where
  "writeFileSync path f fs = fs(path \<mapsto> f)"

definition renameSync :: "string \<Rightarrow> string \<Rightarrow> filesys \<Rightarrow> error + filesys" where
  "renameSync src dst fs =
     (case fs src of
        None \<Rightarrow> Inl (FileNotFound src)
      | Some f \<Rightarrow> Inr ((fs(src := None))(dst \<mapsto> f)))"

definition writeStateAtomic :: "filesys \<Rightarrow> string \<Rightarrow> obj \<Rightarrow> error option \<times> filesys" where
  "writeStateAtomic fs stateFilePath state =
     (let tempPath = stateFilePath @ ''.tmp'';
          fs1 = writeFileSync tempPath (Json state) fs
      in case renameSync tempPath stateFilePath fs1 of
           Inl e \<Rightarrow> (Some e, fs1(tempPath := None))
         | Inr fs2 \<Rightarrow> (None, fs2))"

text \<open>
  The file system when the process dies during \<open>writeStateAtomic\<close>: before the
  write, in the middle of it (the temporary file is incomplete), between the write and
  the rename, or after the rename.  The rename itself is atomic.
\<close>

datatype crash_point = BeforeWrite | DuringWrite | BeforeRename | AfterRename

fun crashed :: "crash_point \<Rightarrow> filesys \<Rightarrow> string \<Rightarrow> obj \<Rightarrow> filesys" where
  "crashed BeforeWrite fs stateFilePath state = fs"
| "crashed DuringWrite fs stateFilePath state =
     writeFileSync (stateFilePath @ ''.tmp'') Garbage fs"
| "crashed BeforeRename fs stateFilePath state =
     writeFileSync (stateFilePath @ ''.tmp'') (Json state) fs"
| "crashed AfterRename fs stateFilePath state = snd (writeStateAtomic fs stateFilePath state)"

text \<open>
  \<open>updateState(stateFilePath, updates)\<close>: read, spread, validate, write; any failure
  is rethrown as \<open>State update failed\<close>.  The result is the returned object (or the
  error) and the file system after the call.
\<close>

definition updateState :: "filesys \<Rightarrow> string \<Rightarrow> obj \<Rightarrow> (error + obj) \<times> filesys" where
  "updateState fs stateFilePath updates =
     (case readState fs stateFilePath of
        Inl e \<Rightarrow> (Inl (StateUpdateFailed e), fs)
      | Inr currentState \<Rightarrow>
          (let newState = spread currentState updates
           in case validateState newState of
                Inl e \<Rightarrow> (Inl (StateUpdateFailed e), fs)
              | Inr _ \<Rightarrow>
                  (case writeStateAtomic fs stateFilePath newState of
                     (Some e, fs') \<Rightarrow> (Inl (StateUpdateFailed e), fs')
                   | (None, fs') \<Rightarrow> (Inr newState, fs'))))"

text \<open>
  \<open>initState(stateFilePath)\<close>: load the file if it exists, otherwise write the initial
  state.  (Creating the parent directory has no effect on this file system.)
\<close>

definition initState :: "filesys \<Rightarrow> string \<Rightarrow> (error + obj) \<times> filesys" where
  "initState fs stateFilePath =
     (if fs stateFilePath \<noteq> None
      then (case readState fs stateFilePath of
              Inl e \<Rightarrow> (Inl (StateInitFailed e), fs)
            | Inr state \<Rightarrow> (Inr state, fs))
      else (case writeStateAtomic fs stateFilePath INITIAL_STATE of
              (Some e, fs') \<Rightarrow> (Inl (StateInitFailed e), fs')
            | (None, fs') \<Rightarrow> (Inr INITIAL_STATE, fs')))"

text \<open>The value that the updates give a key: the last property of that name, if any.\<close>

definition assigned :: "obj \<Rightarrow> string \<Rightarrow> json option" where
  "assigned updates k = map_of (rev updates) k"

definition state_path :: string where
  "state_path = ''./data/current_state.json''"

definition first_run_fs :: filesys where
  "first_run_fs = (\<lambda>_. None)(state_path \<mapsto> Json INITIAL_STATE)"

section \<open>The email processor: email-processor.js\<close>

subsection \<open>Strings\<close>

text \<open>
  The characters that \<open>\s\<close> and \<open>trim\<close> treat as white space (tab, line feed,
  vertical tab, form feed, carriage return, space, no-break space), and the line
  terminators that \<open>.\<close> does not match.
\<close>

definition js_whitespace :: "char \<Rightarrow> bool" where
  "js_whitespace c \<longleftrightarrow>
     c \<in> set [CHR 0x09, CHR 0x0A, CHR 0x0B, CHR 0x0C, CHR 0x0D, CHR 0x20, CHR 0xA0]"

definition line_terminator :: "char \<Rightarrow> bool" where
  "line_terminator c \<longleftrightarrow> c = CHR 0x0A \<or> c = CHR 0x0D"

definition trim :: "string \<Rightarrow> string" where
  "trim s = rev (dropWhile js_whitespace (rev (dropWhile js_whitespace s)))"

definition toLowerCase_char :: "char \<Rightarrow> char" where
  "toLowerCase_char c =
     (let n = (of_char c :: nat)
      in if (65 \<le> n \<and> n \<le> 90) \<or> (192 \<le> n \<and> n \<le> 222 \<and> n \<noteq> 215)
         then char_of (n + 32) else c)"

definition toLowerCase :: "string \<Rightarrow> string" where
  "toLowerCase s = map toLowerCase_char s"

text \<open>\<open>str.split('\r\n')\<close>\<close>

fun prepend :: "char \<Rightarrow> string list \<Rightarrow> string list" where
  "prepend c [] = [[c]]"
| "prepend c (l # ls) = (c # l) # ls"

fun split_crlf :: "string \<Rightarrow> string list" where
  "split_crlf [] = [[]]"
| "split_crlf [a] = [[a]]"
| "split_crlf (a # b # cs) =
     (if a = CHR 0x0D \<and> b = CHR 0x0A then [] # split_crlf cs
      else prepend a (split_crlf (b # cs)))"

subsection \<open>parseHeaders\<close>

text \<open>
  One line against \<open>/^([^:]+):\s*(.*)$/\<close>: the key is what stands before the first
  colon and must not be empty; after the colon and any white space, the rest of the line
  is the value, and the line matches only if that rest holds no line terminator.
\<close>

definition match_header :: "string \<Rightarrow> (string \<times> string) option" where
  "match_header line =
     (let key = takeWhile (\<lambda>c. c \<noteq> CHR '':'') line;
          rest = dropWhile (\<lambda>c. c \<noteq> CHR '':'') line
      in if key = [] \<or> rest = [] then None
         else (let v = dropWhile js_whitespace (tl rest)
               in if list_ex line_terminator v then None else Some (key, v)))"

text \<open>
  \<open>parseHeaders(headerStr)\<close>: every matching line sets
  \<open>headers[key.toLowerCase()] = value.trim()\<close>; a later line replaces an earlier one
  of the same key.
\<close>

definition parseHeaders :: "string \<Rightarrow> (string \<times> string) list" where
  "parseHeaders headerStr =
     fold (\<lambda>line headers.
             case match_header line of
               None \<Rightarrow> headers
             | Some (key, v) \<Rightarrow> AList.update (toLowerCase key) (trim v) headers)
          (split_crlf headerStr) []"

subsection \<open>What the mailbox and the libraries give\<close>

text \<open>
  An attribute of a fetched message as the IMAP library reports it (a number or a
  string), and the Gmail labels (an array of strings, or a single string).
\<close>

datatype attr = ANum int | AStr string

datatype gm_labels = LabelArray "string list" | LabelOne string

record attrs =
  a_uid :: int
  x_gm_labels :: "gm_labels option"
  x_gm_thrid :: "attr option"

text \<open>
  \<open>attrs.id\<close>: the attributes that the IMAP library reports for a message are
  \<open>uid\<close>, \<open>flags\<close>, \<open>date\<close>, \<open>struct\<close>, \<open>size\<close> and the Gmail
  extensions.  There is no property \<open>id\<close>, so reading it gives \<open>undefined\<close>.
\<close>

definition attrs_id :: "attrs \<Rightarrow> attr option" where
  "attrs_id a = None"

text \<open>
  \<open>emailData\<close>, what \<open>imapClient.fetchEmail(id)\<close> resolves with: the header block,
  the text block and the attributes, each of them possibly never delivered.
  (\<open>emailData.id\<close> is \<open>attrs.id\<close>.)
\<close>

record email_data =
  ed_headers :: "string option"
  ed_body :: "string option"
  ed_attrs :: "attrs option"

text \<open>
  What \<open>simpleParser\<close> returns: the date already as its ISO string, the address lists
  as their \<open>text\<close>, each absent when the message does not have it.
\<close>

record parsed_mail =
  p_date :: "string option"
  p_from :: "string option"
  p_to :: "string option"
  p_cc :: "string option"
  p_subject :: "string option"
  p_text :: "string option"
  p_html :: "string option"

text \<open>
  The world outside the source: the mailbox behind the IMAP connection, the mail
  parser, the JSON functions on label arrays, and the clock.  \<open>JSON_parse_array v\<close>
  says whether \<open>JSON.parse(v)\<close> returns an array; \<open>clock uid\<close> is the local time,
  as an ISO string, at which message \<open>uid\<close> is fetched.
\<close>

record env =
  imap_connect :: "error option"
  imap_search :: "error + int list"
  imap_fetch :: "int \<Rightarrow> error + email_data"
  simpleParser :: "string \<Rightarrow> error + parsed_mail"
  JSON_stringify :: "string list \<Rightarrow> string"
  JSON_parse_array :: "json \<Rightarrow> bool"
  clock :: "int \<Rightarrow> string"

text \<open>What the program does to the outside, in order: log lines and IMAP commands.\<close>

datatype level = ERROR | WARN | INFO | DEBUG

datatype effect =
    Log level string
  | ImapConnect
  | ImapDisconnect
  | ImapSearch
  | ImapFetch int
  | DbClose
  | ProcessExit nat

subsection \<open>fetchEmail\<close>

text \<open>\<open>String(v)\<close> and the truth value of an attribute.\<close>

fun js_String :: "attr option \<Rightarrow> string" where
  "js_String None = ''undefined''"
| "js_String (Some (ANum n)) = dec n"
| "js_String (Some (AStr s)) = s"

fun attr_truthy :: "attr option \<Rightarrow> bool" where
  "attr_truthy None = False"
| "attr_truthy (Some (ANum n)) = (n \<noteq> 0)"
| "attr_truthy (Some (AStr s)) = (s \<noteq> [])"

text \<open>\<open>a || b || ...\<close> on strings that may be absent: the first non-empty one.\<close>

fun first_truthy :: "string option list \<Rightarrow> string option" where
  "first_truthy [] = None"
| "first_truthy (None # xs) = first_truthy xs"
| "first_truthy (Some s # xs) = (if s \<noteq> [] then Some s else first_truthy xs)"

definition or_empty :: "string option list \<Rightarrow> string" where
  "or_empty xs = (case first_truthy xs of None \<Rightarrow> [] | Some s \<Rightarrow> s)"

text \<open>
  \<open>labels = attrs?.['x-gm-labels'] || []\<close>, then
  \<open>Array.isArray(labels) ? labels : [labels]\<close>.
\<close>

fun labels_array :: "gm_labels option \<Rightarrow> string list" where
  "labels_array None = []"
| "labels_array (Some (LabelArray ls)) = ls"
| "labels_array (Some (LabelOne s)) = (if s \<noteq> [] then [s] else [])"

text \<open>
  \<open>fetchEmail(imapClient, id)\<close>: fetch, parse the headers, parse the whole message,
  build the record.  An error of the fetch or of the parser is logged and rethrown.
\<close>

definition fetchEmail :: "env \<Rightarrow> int \<Rightarrow> (error + obj) \<times> effect list" where
  "fetchEmail w uid =
     (case imap_fetch w uid of
        Inl e \<Rightarrow> (Inl e, [ImapFetch uid, Log ERROR ''Email fetch failed''])
      | Inr emailData \<Rightarrow>
          (let headers = parseHeaders (case ed_headers emailData of None \<Rightarrow> [] | Some h \<Rightarrow> h);
               fullEmail =
                 (case ed_headers emailData of None \<Rightarrow> ''undefined'' | Some h \<Rightarrow> h)
                 @ [CHR 0x0D, CHR 0x0A, CHR 0x0D, CHR 0x0A]
                 @ (case ed_body emailData of None \<Rightarrow> [] | Some b \<Rightarrow> b)
           in case simpleParser w fullEmail of
                Inl e \<Rightarrow> (Inl e, [ImapFetch uid, Log ERROR ''Email fetch failed''])
              | Inr parsed \<Rightarrow>
                  (let at = ed_attrs emailData;
                       labelsJson =
                         JSON_stringify w
                           (labels_array (case at of None \<Rightarrow> None | Some a \<Rightarrow> x_gm_labels a));
                       thrid = (case at of None \<Rightarrow> None | Some a \<Rightarrow> x_gm_thrid a);
                       threadId = (if attr_truthy thrid then js_String thrid else [])
                   in (Inr
                        [(''id'',
                            JStr (js_String (case at of None \<Rightarrow> None | Some a \<Rightarrow> attrs_id a))),
                         (''thread_id'', JStr threadId),
                         (''received_at'',
                            JStr (case p_date parsed of Some d \<Rightarrow> d | None \<Rightarrow> clock w uid)),
                         (''downloaded_at'', JStr (clock w uid)),
                         (''from_address'',
                            JStr (or_empty [p_from parsed, map_of headers ''from''])),
                         (''to_address'', JStr (or_empty [p_to parsed, map_of headers ''to''])),
                         (''cc_address'',
                            (case first_truthy [p_cc parsed, map_of headers ''cc''] of
                               None \<Rightarrow> JNull
                             | Some s \<Rightarrow> JStr s)),
                         (''subject'',
                            JStr (or_empty [p_subject parsed, map_of headers ''subject''])),
                         (''labels'', JStr labelsJson),
                         (''body'', JStr (or_empty [p_text parsed, p_html parsed]))],
                       [ImapFetch uid]))))"

subsection \<open>validateEmailRecord\<close>

text \<open>
  \<open>validateEmailRecord(email)\<close>, check by check in the order of the source; the
  defaults it fills in are written into the record it returns.
\<close>

definition validateEmailRecord :: "env \<Rightarrow> obj \<Rightarrow> error + obj" where
  "validateEmailRecord w email =
     (if \<not> truthy (jget email ''id'') \<or> \<not> is_string (jget email ''id'')
      then Inl (RecordInvalid ''id must be a non-empty string'')
      else
        (let e1 = (if nullish (jget email ''thread_id'')
                   then AList.update ''thread_id'' (JStr []) email else email)
         in if \<not> is_string (jget e1 ''thread_id'')
            then Inl (RecordInvalid ''thread_id must be a string'')
            else if \<not> truthy (jget e1 ''from_address'') \<or> \<not> is_string (jget e1 ''from_address'')
            then Inl (RecordInvalid ''from_address is required'')
            else if \<not> truthy (jget e1 ''to_address'') \<or> \<not> is_string (jget e1 ''to_address'')
            then Inl (RecordInvalid ''to_address is required'')
            else
              (let e2 = (if nullish (jget e1 ''subject'')
                         then AList.update ''subject'' (JStr []) e1 else e1);
                   e3 = (if nullish (jget e2 ''body'')
                         then AList.update ''body'' (JStr []) e2 else e2)
               in if truthy (jget e3 ''labels'')
                     \<and> \<not> (case jget e3 ''labels'' of
                              Some v \<Rightarrow> JSON_parse_array w v
                            | None \<Rightarrow> False)
                  then Inl (RecordInvalid ''labels must be valid JSON array string'')
                  else
                    (let e4 = (if truthy (jget e3 ''labels'') then e3
                               else AList.update ''labels'' (JStr ''[]'') e3)
                     in if \<not> truthy (jget e4 ''received_at'')
                           \<or> \<not> is_string (jget e4 ''received_at'')
                        then Inl (RecordInvalid ''received_at must be ISO 8601 format'')
                        else if \<not> truthy (jget e4 ''downloaded_at'')
                                \<or> \<not> is_string (jget e4 ''downloaded_at'')
                        then Inl (RecordInvalid ''downloaded_at must be ISO 8601 format'')
                        else Inr e4))))"

subsection \<open>processEmail\<close>

text \<open>
  An object literal whose property values may be \<open>undefined\<close>: such a property does
  not reach the JSON text.
\<close>

fun literal :: "(string \<times> json option) list \<Rightarrow> obj" where
  "literal [] = []"
| "literal ((k, None) # ps) = literal ps"
| "literal ((k, Some v) # ps) = (k, v) # literal ps"

text \<open>
  \<open>processEmail(imapClient, db, statePath, id)\<close>: fetch, validate, store, and after a
  store update the state.  Whatever is thrown on the way is caught and logged, and the
  function returns \<open>false\<close>.  The result is the returned boolean, the store and the
  file system after the call, and what the call did to the outside.
\<close>

definition processEmail ::
  "env \<Rightarrow> db_handle \<Rightarrow> filesys \<Rightarrow> string \<Rightarrow> int \<Rightarrow> bool \<times> db_handle \<times> filesys \<times> effect list" where
  "processEmail w db fs statePath uid =
     (case fetchEmail w uid of
        (Inl e, fx) \<Rightarrow>
          (False, db, fs,
           Log DEBUG ''Processing email'' # fx @ [Log ERROR ''Email processing failed''])
      | (Inr fetched, fx) \<Rightarrow>
          (case validateEmailRecord w fetched of
             Inl e \<Rightarrow>
               (False, db, fs,
                Log DEBUG ''Processing email'' # fx @ [Log ERROR ''Email processing failed''])
           | Inr emailRecord \<Rightarrow>
               (case storeEmail db emailRecord of
                  Inl e \<Rightarrow>
                    (False, db, fs,
                     Log DEBUG ''Processing email'' # fx
                       @ [Log ERROR ''Email processing failed''])
                | Inr (stored, db') \<Rightarrow>
                    if \<not> stored
                    then (False, db', fs,
                          Log DEBUG ''Processing email'' # fx
                            @ [Log WARN ''Duplicate email detected''])
                    else
                      (case updateState fs statePath
                              (literal [(''last_id'', jget emailRecord ''id''),
                                        (''last_id_received_at'',
                                           jget emailRecord ''downloaded_at''),
                                        (''last_error'', Some JNull)]) of
                         (Inl e, fs') \<Rightarrow>
                           (False, db', fs',
                            Log DEBUG ''Processing email'' # fx
                              @ [Log ERROR ''Email processing failed''])
                       | (Inr newState, fs') \<Rightarrow>
                           (True, db', fs',
                            Log DEBUG ''Processing email'' # fx
                              @ [Log INFO ''Email processed successfully''])))))"

section \<open>The monitor: imap-monitor.js\<close>

text \<open>
  The module's state: the store, the files, the shutdown flag, whether the IMAP client
  holds a connection, and everything done to the outside so far.
\<close>

record app =
  app_db :: db_handle
  app_fs :: filesys
  isShuttingDown :: bool
  isConnected :: bool
  effects :: "effect list"

text \<open>
  The loop \<open>for (const uid of newUids) { await processEmail(...) }\<close>.  (Its
  \<open>catch\<close> is never entered: \<open>processEmail\<close> does not throw.)
\<close>

fun process_each :: "env \<Rightarrow> string \<Rightarrow> int list \<Rightarrow> app \<Rightarrow> app" where
  "process_each w statePath [] a = a"
| "process_each w statePath (uid # uids) a =
     (case processEmail w (app_db a) (app_fs a) statePath uid of
        (ok, db', fs', fx) \<Rightarrow>
          process_each w statePath uids
            (a\<lparr>app_db := db', app_fs := fs', effects := effects a @ fx\<rparr>))"

text \<open>
  The handler of the client's \<open>mail\<close> event: search \<open>ALL\<close>, read the state, keep
  the UIDs above \<open>state.last_uid\<close> (an integer, since the state was validated), and
  process them in order.  An error of the search or of the read is logged.
\<close>

definition on_mail :: "env \<Rightarrow> string \<Rightarrow> app \<Rightarrow> app" where
  "on_mail w statePath a =
     (if isShuttingDown a then a
      else
        (let a1 = a\<lparr>effects := effects a @ [Log DEBUG ''New mail event'', ImapSearch]\<rparr>
         in case imap_search w of
              Inl e \<Rightarrow> a1\<lparr>effects := effects a1 @ [Log ERROR ''Error handling new mail'']\<rparr>
            | Inr uids \<Rightarrow>
                (case readState (app_fs a1) statePath of
                   Inl e \<Rightarrow> a1\<lparr>effects := effects a1 @ [Log ERROR ''Error handling new mail'']\<rparr>
                 | Inr state \<Rightarrow>
                     (let newUids =
                            (case jget state ''last_uid'' of
                               Some (JInt lastUid) \<Rightarrow> filter (\<lambda>uid. lastUid < uid) uids
                             | _ \<Rightarrow> [])
                      in if newUids = []
                         then a1\<lparr>effects := effects a1 @ [Log DEBUG ''No new emails to process'']\<rparr>
                         else process_each w statePath newUids
                                (a1\<lparr>effects := effects a1 @ [Log INFO ''Processing new emails'']\<rparr>)))))"

text \<open>
  The \<open>error\<close> and \<open>end\<close> events of the connection: the client marks itself
  disconnected and logs, then the monitor's handler logs.  Nothing else happens.
\<close>

definition on_error :: "app \<Rightarrow> app" where
  "on_error a =
     a\<lparr>isConnected := False,
       effects := effects a @ [Log ERROR ''IMAP connection error'', Log ERROR ''IMAP error'']\<rparr>"

definition on_end :: "app \<Rightarrow> app" where
  "on_end a =
     a\<lparr>isConnected := False,
       effects := effects a @ [Log WARN ''IMAP connection ended'', Log WARN ''IMAP connection ended'']\<rparr>"

text \<open>The handle on the table that a successful \<open>initDatabase\<close> leaves.\<close>

definition handle_of :: "conn \<Rightarrow> db_handle" where
  "handle_of c =
     \<lparr>is_open = True,
      rows = (case emails (fst c) of Some (NewLayout rs) \<Rightarrow> rs | _ \<Rightarrow> [])\<rparr>"

text \<open>
  \<open>gracefulShutdown(exitCode)\<close>: disconnect the client if there is one, close the
  database if it was opened, exit.
\<close>

definition gracefulShutdown :: "bool \<Rightarrow> bool \<Rightarrow> nat \<Rightarrow> effect list" where
  "gracefulShutdown client opened exitCode =
     [Log INFO ''Initiating graceful shutdown'']
     @ (if client then [ImapDisconnect, Log INFO ''IMAP connection closed''] else [])
     @ (if opened then [DbClose] else [])
     @ [Log INFO ''Shutdown complete'', ProcessExit exitCode]"

text \<open>
  \<open>initialize()\<close>: open the database, load or create the state, connect, start
  listening.  A failure at any step shuts the process down with exit code 1.  The result
  is the running application, if it started, the database file, the file system and what
  was done to the outside.
\<close>

definition initialize ::
  "env \<Rightarrow> database \<Rightarrow> filesys \<Rightarrow> string \<Rightarrow> app option \<times> conn \<times> filesys \<times> effect list" where
  "initialize w d fs statePath =
     (case initDatabase d of
        (Some e, c) \<Rightarrow>
          (None, c, fs,
           [Log INFO ''Starting Gmail IMAP Monitor'', Log ERROR ''Initialization failed'']
           @ gracefulShutdown False False 1)
      | (None, c) \<Rightarrow>
          (case initState fs statePath of
             (Inl e, fs') \<Rightarrow>
               (None, c, fs',
                [Log INFO ''Starting Gmail IMAP Monitor'', Log INFO ''Database initialized'',
                 Log ERROR ''Initialization failed'']
                @ gracefulShutdown False True 1)
           | (Inr state, fs') \<Rightarrow>
               (case imap_connect w of
                  Some e \<Rightarrow>
                    (None, c, fs',
                     [Log INFO ''Starting Gmail IMAP Monitor'', Log INFO ''Database initialized'',
                      Log INFO ''State initialized'', Log INFO ''Connecting to IMAP'',
                      ImapConnect, Log ERROR ''IMAP connection error'', Log ERROR ''IMAP error'',
                      Log ERROR ''Initialization failed'']
                     @ gracefulShutdown True True 1)
                | None \<Rightarrow>
                    (let fx = [Log INFO ''Starting Gmail IMAP Monitor'',
                               Log INFO ''Database initialized'', Log INFO ''State initialized'',
                               Log INFO ''Connecting to IMAP'', ImapConnect,
                               Log INFO ''IMAP connection established'', Log INFO ''INBOX opened'',
                               Log INFO ''IDLE activated - monitoring for new emails'',
                               Log INFO ''Gmail IMAP Monitor started successfully'']
                     in (Some \<lparr>app_db = handle_of c, app_fs = fs', isShuttingDown = False,
                                isConnected = True, effects = fx\<rparr>,
                         c, fs', fx)))))"

text \<open>The UIDs fetched, and the number of connection attempts, in a list of effects.\<close>

fun fetched_uids :: "effect list \<Rightarrow> int list" where
  "fetched_uids [] = []"
| "fetched_uids (ImapFetch uid # fx) = uid # fetched_uids fx"
| "fetched_uids (_ # fx) = fetched_uids fx"

definition connect_attempts :: "effect list \<Rightarrow> nat" where
  "connect_attempts fx = length (filter (\<lambda>e. e = ImapConnect) fx)"

text \<open>
  The record that reaches \<open>storeEmail\<close> for a candidate: what \<open>fetchEmail\<close> builds and
  \<open>validateEmailRecord\<close> accepts; \<open>None\<close> when either of them throws (the message
  is malformed).
\<close>

definition valid_message :: "env \<Rightarrow> int \<Rightarrow> obj option" where
  "valid_message w uid =
     (case fetchEmail w uid of
        (Inl e, fx) \<Rightarrow> None
      | (Inr fetched, fx) \<Rightarrow>
          (case validateEmailRecord w fetched of Inl e \<Rightarrow> None | Inr emailRecord \<Rightarrow> Some emailRecord))"

text \<open>The shape of a record that \<open>fetchEmail\<close> builds.\<close>

definition fetched_record :: "obj \<Rightarrow> bool" where
  "fetched_record r \<longleftrightarrow>
     (\<exists>i t ra da f ta c s l b.
        r = [(''id'', JStr i), (''thread_id'', JStr t), (''received_at'', JStr ra),
             (''downloaded_at'', JStr da), (''from_address'', JStr f),
             (''to_address'', JStr ta), (''cc_address'', c), (''subject'', JStr s),
             (''labels'', JStr l), (''body'', JStr b)] \<and>
        (c = JNull \<or> (\<exists>x. c = JStr x)))"

subsection \<open>An example mailbox\<close>

text \<open>
  Three messages with UIDs 1, 2 and 3, all of them in the mailbox before the monitor
  starts.  Message 2 has neither sender nor recipient.  The parser finds only the text;
  the addresses come from the header block.  Message 3 is fetched three seconds after
  the others.
\<close>

definition example_attrs :: "int \<Rightarrow> attrs" where
  "example_attrs uid =
     \<lparr>a_uid = uid, x_gm_labels = Some (LabelArray [''INBOX'']),
      x_gm_thrid = Some (AStr ''t-100'')\<rparr>"

definition example_header_block :: string where
  "example_header_block =
     ''From: alice@example.com'' @ [CHR 0x0D, CHR 0x0A] @ ''To: bob@example.com''"

definition example_fetch :: "int \<Rightarrow> error + email_data" where
  "example_fetch uid =
     (if uid = 2
      then Inr \<lparr>ed_headers = Some ''Subject: no sender'', ed_body = Some ''text'',
                ed_attrs = Some (example_attrs uid)\<rparr>
      else if uid = 1 \<or> uid = 3
      then Inr \<lparr>ed_headers = Some example_header_block, ed_body = Some ''text'',
                ed_attrs = Some (example_attrs uid)\<rparr>
      else Inl (ImapError ''no such message''))"

definition example_parser :: "string \<Rightarrow> error + parsed_mail" where
  "example_parser fullEmail =
     Inr \<lparr>p_date = None, p_from = None, p_to = None, p_cc = None, p_subject = None,
          p_text = Some ''text'', p_html = None\<rparr>"

definition example_stringify :: "string list \<Rightarrow> string" where
  "example_stringify ls =
     ''['' @ concat (map (\<lambda>l. [CHR 0x22] @ l @ [CHR 0x22]) ls) @ '']''"

definition example_parse_array :: "json \<Rightarrow> bool" where
  "example_parse_array v =
     (case v of JStr s \<Rightarrow> s \<noteq> [] \<and> hd s = CHR ''['' \<and> last s = CHR '']'' | _ \<Rightarrow> False)"

definition example_clock :: "int \<Rightarrow> string" where
  "example_clock uid =
     (if uid = 3 then ''2025-11-01T12:00:03.000Z'' else ''2025-11-01T12:00:00.000Z'')"

definition example_env :: env where
  "example_env =
     \<lparr>imap_connect = None, imap_search = Inr [1, 2, 3], imap_fetch = example_fetch,
      simpleParser = example_parser, JSON_stringify = example_stringify,
      JSON_parse_array = example_parse_array, clock = example_clock\<rparr>"

text \<open>The record that \<open>fetchEmail\<close> builds for message 1 and for message 3.\<close>

definition example_record :: "int \<Rightarrow> obj" where
  "example_record uid =
     [(''id'', JStr ''undefined''), (''thread_id'', JStr ''t-100''),
      (''received_at'', JStr (example_clock uid)),
      (''downloaded_at'', JStr (example_clock uid)),
      (''from_address'', JStr ''alice@example.com''),
      (''to_address'', JStr ''bob@example.com''), (''cc_address'', JNull),
      (''subject'', JStr []), (''labels'', JStr (example_stringify [''INBOX''])),
      (''body'', JStr ''text'')]"

text \<open>An empty database file and an empty file system: the very first run.\<close>

definition empty_database :: database where
  "empty_database = \<lparr>emails = None, emails_new = None, indexes = []\<rparr>"

definition no_files :: filesys where
  "no_files = (\<lambda>_. None)"

text \<open>The application right after a first start on the example mailbox.\<close>

definition started_app :: app where
  "started_app =
     \<lparr>app_db = \<lparr>is_open = True, rows = []\<rparr>, app_fs = first_run_fs,
      isShuttingDown = False, isConnected = True,
      effects = [Log INFO ''Starting Gmail IMAP Monitor'',
                 Log INFO ''Database initialized'', Log INFO ''State initialized'',
                 Log INFO ''Connecting to IMAP'', ImapConnect,
                 Log INFO ''IMAP connection established'', Log INFO ''INBOX opened'',
                 Log INFO ''IDLE activated - monitoring for new emails'',
                 Log INFO ''Gmail IMAP Monitor started successfully'']\<rparr>"

text \<open>What \<open>processEmail\<close> passes to \<open>updateState\<close> after storing \<open>m\<close>.\<close>

definition progress_update :: "obj \<Rightarrow> obj" where
  "progress_update m =
     literal [(''last_id'', jget m ''id''),
              (''last_id_received_at'', jget m ''downloaded_at''),
              (''last_error'', Some JNull)]"

text \<open>The same mailbox holding only message 1, and the state after that message.\<close>

definition one_message_env :: env where
  "one_message_env = example_env\<lparr>imap_search := Inr [1]\<rparr>"

definition state_after_first :: obj where
  "state_after_first =
     [(''last_uid'', JInt 0),
      (''last_uid_received_at'', JStr ''1970-01-01T00:00:00.000Z''),
      (''last_connected_at'', JStr ''1970-01-01T00:00:00.000Z''),
      (''last_error'', JNull),
      (''connection_status'', JStr ''disconnected''),
      (''last_id'', JStr ''undefined''),
      (''last_id_received_at'', JStr ''2025-11-01T12:00:00.000Z'')]"

section \<open>The push endpoint: webhook-server.js\<close>

definition REQUIRED_FIELDS :: "string list" where
  "REQUIRED_FIELDS =
     [''id'', ''thread_id'', ''received_at'', ''downloaded_at'', ''from_address'',
      ''subject'', ''body'']"

text \<open>\<open>xs.join(', ')\<close>, \<open>typeof v\<close> and \<open>s.includes(t)\<close>.\<close>

fun join :: "string \<Rightarrow> string list \<Rightarrow> string" where
  "join sep [] = []"
| "join sep [x] = x"
| "join sep (x # y # ys) = x @ sep @ join sep (y # ys)"

fun typeof :: "json option \<Rightarrow> string" where
  "typeof None = ''undefined''"
| "typeof (Some JNull) = ''object''"
| "typeof (Some (JBool b)) = ''boolean''"
| "typeof (Some (JInt n)) = ''number''"
| "typeof (Some (JStr s)) = ''string''"
| "typeof (Some (JArr xs)) = ''object''"
| "typeof (Some JObj) = ''object''"

fun js_includes :: "string \<Rightarrow> string \<Rightarrow> bool" where
  "js_includes [] t = (t = [])"
| "js_includes (c # cs) t = (take (length t) (c # cs) = t \<or> js_includes cs t)"

text \<open>
  The test inside \<open>missingFields\<close>: the payload does not have the field, or the value
  is \<open>null\<close> or \<open>undefined\<close>, or it is a string that is blank after \<open>trim\<close>.
\<close>

fun missing_value :: "json option \<Rightarrow> bool" where
  "missing_value None = True"
| "missing_value (Some JNull) = True"
| "missing_value (Some (JStr s)) = (trim s = [])"
| "missing_value (Some v) = False"

datatype validation = Valid | Invalid string string

text \<open>
  \<open>validatePayload(payload)\<close>: the required fields that are missing, then the first
  required field that is not a string.  The test for a missing field starts with the
  call \<open>payload.hasOwnProperty(field)\<close>, which calls what the payload has under that
  name: the inherited method when the payload has no key \<open>hasOwnProperty\<close> of its
  own, and otherwise the value of that key, which is JSON data and not a function, so
  that the call throws a \<open>TypeError\<close> at the first required field.
\<close>

definition validatePayload :: "obj \<Rightarrow> error + validation" where
  "validatePayload payload =
     (if jget payload ''hasOwnProperty'' \<noteq> None
      then Inl (TypeError ''payload.hasOwnProperty is not a function'')
      else
        (let missingFields = filter (\<lambda>field. missing_value (jget payload field)) REQUIRED_FIELDS
         in if missingFields \<noteq> []
            then Inr (Invalid (''Missing required fields: '' @ join '', '' missingFields)
                        ''VALIDATION_ERROR'')
            else (case find (\<lambda>field. \<not> is_string (jget payload field)) REQUIRED_FIELDS of
                    Some field \<Rightarrow>
                      Inr (Invalid (''Field '' @ [CHR 0x27] @ field @ [CHR 0x27]
                                    @ '' must be a string, got '' @ typeof (jget payload field))
                             ''VALIDATION_ERROR'')
                  | None \<Rightarrow> Inr Valid)))"

text \<open>
  A request as the handler sees it: the \<open>Content-Type\<close> header and what
  \<open>parseRequestBody\<close> makes of the body (the parsed payload, a JSON object, or one
  of its three rejections).  A response is the status code and the JSON body.
\<close>

datatype parse_error = PayloadTooLarge | InvalidJson | RequestError

record request =
  content_type :: "string option"
  parsed_body :: "parse_error + obj"

record response =
  statusCode :: nat
  json_body :: obj

definition formatSuccessResponse :: "json \<Rightarrow> string \<Rightarrow> obj" where
  "formatSuccessResponse messageId action =
     [(''status'', JStr ''success''), (''action'', JStr action), (''id'', messageId)]"

definition formatErrorResponse :: "string \<Rightarrow> string \<Rightarrow> obj" where
  "formatErrorResponse message code =
     [(''status'', JStr ''error''), (''message'', JStr message), (''code'', JStr code)]"

fun parse_error_response :: "parse_error \<Rightarrow> obj" where
  "parse_error_response PayloadTooLarge =
     formatErrorResponse ''Payload too large (max 1MB)'' ''PAYLOAD_TOO_LARGE''"
| "parse_error_response InvalidJson =
     formatErrorResponse ''Invalid JSON in request body'' ''INVALID_JSON''"
| "parse_error_response RequestError =
     formatErrorResponse ''Request error'' ''REQUEST_ERROR''"

text \<open>\<open>error.message.includes('UNIQUE constraint failed')\<close>, through the wrappers.\<close>

fun unique_violation :: "error \<Rightarrow> bool" where
  "unique_violation (UniqueConstraint c) = True"
| "unique_violation (EmailInsertionFailed e) = unique_violation e"
| "unique_violation _ = False"

text \<open>
  \<open>handleWebhookPost\<close>: check the content type, take the parsed payload, validate,
  store, answer.  \<open>messageId\<close> is \<open>payload.id || null\<close>.  Whatever is thrown
  after the payload was parsed, by the validation or by the store (other than a
  uniqueness violation), reaches the outer \<open>catch\<close> and is answered 500
  \<open>DATABASE_ERROR\<close>.  The result is the response and the store after the request.
\<close>

definition handleWebhookPost :: "db_handle \<Rightarrow> request \<Rightarrow> response \<times> db_handle" where
  "handleWebhookPost db req =
     (if (case content_type req of
            None \<Rightarrow> True
          | Some contentType \<Rightarrow> contentType = [] \<or> \<not> js_includes contentType ''application/json'')
      then (\<lparr>statusCode = 400,
             json_body = formatErrorResponse ''Content-Type must be application/json''
                           ''INVALID_CONTENT_TYPE''\<rparr>, db)
      else
        (case parsed_body req of
           Inl parseError \<Rightarrow> (\<lparr>statusCode = 400, json_body = parse_error_response parseError\<rparr>, db)
         | Inr payload \<Rightarrow>
             (let messageId = (if truthy (jget payload ''id'')
                               then (case jget payload ''id'' of Some v \<Rightarrow> v | None \<Rightarrow> JNull)
                               else JNull)
              in case validatePayload payload of
                   Inl e \<Rightarrow>
                     (\<lparr>statusCode = 500,
                       json_body = formatErrorResponse ''Database operation failed''
                                     ''DATABASE_ERROR''\<rparr>, db)
                 | Inr (Invalid message code) \<Rightarrow>
                     (\<lparr>statusCode = 400, json_body = formatErrorResponse message code\<rparr>, db)
                 | Inr Valid \<Rightarrow>
                     (case storeEmail db payload of
                        Inl e \<Rightarrow>
                          if unique_violation e
                          then (\<lparr>statusCode = 200,
                                 json_body = formatSuccessResponse messageId ''skipped''\<rparr>, db)
                          else (\<lparr>statusCode = 500,
                                 json_body = formatErrorResponse ''Database operation failed''
                                               ''DATABASE_ERROR''\<rparr>, db)
                      | Inr (wasStored, db') \<Rightarrow>
                          (\<lparr>statusCode = 200,
                            json_body = formatSuccessResponse messageId
                                          (if wasStored then ''stored'' else ''skipped'')\<rparr>,
                           db')))))"

text \<open>
  A payload that is valid in the sense of the endpoint's contract: each of the nine
  mandatory fields is a string that is not blank, and \<open>cc_address\<close> is a string,
  \<open>null\<close> or absent.
\<close>

definition MANDATORY_FIELDS :: "string list" where
  "MANDATORY_FIELDS =
     [''id'', ''thread_id'', ''received_at'', ''downloaded_at'', ''from_address'',
      ''to_address'', ''subject'', ''labels'', ''body'']"

definition valid_payload :: "obj \<Rightarrow> bool" where
  "valid_payload p \<longleftrightarrow>
     list_all (\<lambda>k. is_string (jget p k) \<and> \<not> missing_value (jget p k)) MANDATORY_FIELDS
     \<and> (nullish (jget p ''cc_address'') \<or> is_string (jget p ''cc_address''))"

definition json_request :: "obj \<Rightarrow> request" where
  "json_request p = \<lparr>content_type = Some ''application/json'', parsed_body = Inr p\<rparr>"

text \<open>The example message without its recipient.\<close>

definition msg_no_recipient :: obj where
  "msg_no_recipient = AList.delete ''to_address'' msgA"

text \<open>The example message with an empty recipient.\<close>

definition msg_empty_recipient :: obj where
  "msg_empty_recipient = AList.update ''to_address'' (JStr []) msgA"

text \<open>
  The example message with one more field, named \<open>hasOwnProperty\<close>, and the same
  with another body.
\<close>

definition msg_extra_key :: "string \<Rightarrow> obj" where
  "msg_extra_key b =
     AList.update ''body'' (JStr b) (msgA @ [(''hasOwnProperty'', JStr ''x'')])"

section \<open>Properties\<close>

subsection \<open>Idempotent insert\<close>

lemma is_string_bind: "is_string v \<Longrightarrow> sql_bind v = Inr (Some (str_of v))"
  by (cases v rule: is_string.cases) simp_all

lemma cc_bind:
  "nullish v \<or> is_string v \<Longrightarrow> sql_bind v = Inr (opt_str_of v)"
  by (cases v rule: sql_bind.cases) simp_all

lemma thread_bind:
  "is_string v \<Longrightarrow>
     sql_bind (if truthy v then v else Some (JStr [])) = Inr (Some (str_of v))"
  by (cases v rule: is_string.cases) simp_all

lemma bind_from_value:
  "sql_bind v = Inr x \<Longrightarrow>
   bind_from ob (v # args) =
     (case bind_from ob args of Inl e \<Rightarrow> Inl e | Inr ws \<Rightarrow> Inr (x # ws))"
  by (cases v rule: sql_bind.cases) auto

lemma bind_args_one: "sql_bind v = Inr x \<Longrightarrow> bind_args (Suc 0) [v] = Inr [x]"
  by (simp add: bind_args_def bind_from_value)

lemma storeEmail_duplicate:
  "is_open db \<Longrightarrow> sql_bind (jget email ''id'') = Inr (Some i) \<Longrightarrow>
   i \<in> set (map row_id (rows db)) \<Longrightarrow> storeEmail db email = Inr (False, db)"
  by (simp add: storeEmail_def select_exists_def bind_args_one)

lemma storeEmail_new:
  assumes "is_open db" and "is_message m"
    and "str_of (jget m ''id'') \<notin> set (map row_id (rows db))"
  shows "storeEmail db m = Inr (True, db\<lparr>rows := rows db @ [row_of m]\<rparr>)"
proof -
  from assms(2) have s:
    "is_string (jget m ''id'')" "is_string (jget m ''thread_id'')"
    "is_string (jget m ''received_at'')" "is_string (jget m ''downloaded_at'')"
    "is_string (jget m ''from_address'')" "is_string (jget m ''to_address'')"
    "is_string (jget m ''subject'')" "is_string (jget m ''labels'')"
    "is_string (jget m ''body'')"
    and c: "nullish (jget m ''cc_address'') \<or> is_string (jget m ''cc_address'')"
    by (simp_all add: is_message_def)
  note b = bind_from_value [OF is_string_bind [OF s(1)]] bind_from_value [OF thread_bind [OF s(2)]]
    bind_from_value [OF is_string_bind [OF s(3)]] bind_from_value [OF is_string_bind [OF s(4)]]
    bind_from_value [OF is_string_bind [OF s(5)]] bind_from_value [OF is_string_bind [OF s(6)]]
    bind_from_value [OF cc_bind [OF c]] bind_from_value [OF is_string_bind [OF s(7)]]
    bind_from_value [OF is_string_bind [OF s(8)]] bind_from_value [OF is_string_bind [OF s(9)]]
  have ten: "bind_args 10
      [jget m ''id'',
       (if truthy (jget m ''thread_id'') then jget m ''thread_id'' else Some (JStr [])),
       jget m ''received_at'', jget m ''downloaded_at'', jget m ''from_address'',
       jget m ''to_address'', jget m ''cc_address'', jget m ''subject'', jget m ''labels'',
       jget m ''body'']
    = Inr [Some (str_of (jget m ''id'')), Some (str_of (jget m ''thread_id'')),
           Some (str_of (jget m ''received_at'')), Some (str_of (jget m ''downloaded_at'')),
           Some (str_of (jget m ''from_address'')), Some (str_of (jget m ''to_address'')),
           opt_str_of (jget m ''cc_address''), Some (str_of (jget m ''subject'')),
           Some (str_of (jget m ''labels'')), Some (str_of (jget m ''body''))]"
    unfolding bind_args_def by (simp only: b bind_from.simps(1) sum.case list.size) simp
  show ?thesis
    using assms(1,3)
    by (simp add: storeEmail_def select_exists_def row_of_def insert_values_def
        bind_args_one [OF is_string_bind [OF s(1)]] ten)
qed

subsection \<open>Decimal text is injective\<close>

lemma digit_bound: "(d::nat) < 10 \<Longrightarrow> 48 + d < 256"
  by linarith

lemma digit_mod: "(d::nat) < 10 \<Longrightarrow> (48 + d) mod 256 = 48 + d"
  by (simp add: digit_bound)

lemma digit_char_code: "d < 10 \<Longrightarrow> (of_char (digit_char d) :: nat) = 48 + d"
  unfolding digit_char_def by (simp only: of_char_of digit_mod)

lemma digit_char_inj: "a < 10 \<Longrightarrow> b < 10 \<Longrightarrow> digit_char a = digit_char b \<Longrightarrow> a = b"
proof -
  assume a: "a < 10" and b: "b < 10" and e: "digit_char a = digit_char b"
  from e have "(of_char (digit_char a) :: nat) = of_char (digit_char b)" by (rule arg_cong)
  then show "a = b" by (simp only: digit_char_code [OF a] digit_char_code [OF b] add_left_cancel)
qed

lemma digit_char_not_minus: "d < 10 \<Longrightarrow> digit_char d \<noteq> CHR ''-''"
proof
  assume "d < 10" and "digit_char d = CHR ''-''"
  then have "(of_char (CHR ''-'') :: nat) = 48 + d"
    using digit_char_code [of d] by simp
  then show False by simp
qed

lemma dec_nat_nonempty: "dec_nat n \<noteq> []"
  by (subst dec_nat.simps) simp

lemma dec_nat_inj: "dec_nat n = dec_nat m \<Longrightarrow> n = m"
proof (induction n arbitrary: m rule: dec_nat.induct)
  case (1 n)
  show ?case
  proof (cases "n < 10")
    case True
    then have n: "dec_nat n = [digit_char n]" by (subst dec_nat.simps) simp
    show ?thesis
    proof (cases "m < 10")
      case True
      then have "dec_nat m = [digit_char m]" by (subst dec_nat.simps) simp
      with n "1.prems" \<open>n < 10\<close> True show ?thesis by (simp add: digit_char_inj)
    next
      case False
      then have "dec_nat m = dec_nat (m div 10) @ [digit_char (m mod 10)]"
        by (subst dec_nat.simps) simp
      with n "1.prems" dec_nat_nonempty [of "m div 10"] show ?thesis by simp
    qed
  next
    case False
    then have n: "dec_nat n = dec_nat (n div 10) @ [digit_char (n mod 10)]"
      by (subst dec_nat.simps) simp
    show ?thesis
    proof (cases "m < 10")
      case True
      then have "dec_nat m = [digit_char m]" by (subst dec_nat.simps) simp
      with n "1.prems" dec_nat_nonempty [of "n div 10"] show ?thesis by simp
    next
      case mf: False
      then have m: "dec_nat m = dec_nat (m div 10) @ [digit_char (m mod 10)]"
        by (subst dec_nat.simps) simp
      from n m "1.prems" have a: "dec_nat (n div 10) = dec_nat (m div 10)"
        and b: "digit_char (n mod 10) = digit_char (m mod 10)" by simp_all
      from "1.IH" [OF False a] have "n div 10 = m div 10" .
      moreover from b have "n mod 10 = m mod 10" by (simp add: digit_char_inj)
      ultimately show ?thesis by (metis div_mult_mod_eq)
    qed
  qed
qed

lemma dec_nat_no_minus: "CHR ''-'' \<notin> set (dec_nat n)"
proof (induction n rule: dec_nat.induct)
  case (1 n)
  show ?case
  proof (cases "n < 10")
    case True
    then show ?thesis by (subst dec_nat.simps) (simp add: digit_char_not_minus [symmetric])
  next
    case False
    with "1.IH" show ?thesis
      using digit_char_not_minus [of "n mod 10"] by (subst dec_nat.simps) auto
  qed
qed

lemma dec_inj: "dec i = dec j \<Longrightarrow> i = j"
proof -
  assume h: "dec i = dec j"
  have hd_pos: "\<And>n. hd (dec_nat n) \<noteq> CHR ''-''"
    using dec_nat_no_minus dec_nat_nonempty by (metis hd_in_set)
  show ?thesis
  proof (cases "i < 0")
    case True
    show ?thesis
    proof (cases "j < 0")
      case jt: True
      with True h have "dec_nat (nat (- i)) = dec_nat (nat (- j))" by (simp add: dec_def)
      then have "nat (- i) = nat (- j)" by (rule dec_nat_inj)
      with True jt show ?thesis by simp
    next
      case False
      with True h have "CHR ''-'' # dec_nat (nat (- i)) = dec_nat (nat j)" by (simp add: dec_def)
      then have "hd (dec_nat (nat j)) = CHR ''-''" by (metis list.sel(1))
      with hd_pos show ?thesis by blast
    qed
  next
    case False
    show ?thesis
    proof (cases "j < 0")
      case True
      with False h have "dec_nat (nat i) = CHR ''-'' # dec_nat (nat (- j))" by (simp add: dec_def)
      then have "hd (dec_nat (nat i)) = CHR ''-''" by (metis list.sel(1))
      with hd_pos show ?thesis by blast
    next
      case jf: False
      with False h have "dec_nat (nat i) = dec_nat (nat j)" by (simp add: dec_def)
      then have "nat i = nat j" by (rule dec_nat_inj)
      with False jf show ?thesis by simp
    qed
  qed
qed


subsection \<open>Migration\<close>

lemma insert_values_Inr:
  "insert_values t v = Inr t' \<Longrightarrow>
     \<exists>i th r d f ta cc s l b.
       v = [Some i, Some th, Some r, Some d, Some f, Some ta, cc, Some s, Some l, Some b] \<and>
       i \<notin> set (map row_id t) \<and>
       t' = t @ [\<lparr>row_id = i, thread_id = th, received_at = r, downloaded_at = d,
                  from_address = f, to_address = ta, cc_address = cc, subject = s,
                  labels = l, body = b\<rparr>]"
  unfolding insert_values_def
  by (simp split: list.splits option.splits if_splits)

lemma insert_values_ok:
  "i \<notin> set (map row_id t) \<Longrightarrow>
     insert_values t [Some i, Some th, Some r, Some d, Some f, Some ta, cc, Some s, Some l, Some b]
       = Inr (t @ [\<lparr>row_id = i, thread_id = th, received_at = r, downloaded_at = d,
                  from_address = f, to_address = ta, cc_address = cc, subject = s,
                  labels = l, body = b\<rparr>])"
  by (simp add: insert_values_def)

lemma select_old_Inr:
  "insert_values t (select_old r) = Inr t' \<Longrightarrow>
     copyable r \<and> dec (o_id r) \<notin> set (map row_id t) \<and> t' = t @ [migrated r]"
  by (drule insert_values_Inr) (auto simp: select_old_def copyable_def migrated_def)

lemma select_old_ok:
  "copyable r \<Longrightarrow> dec (o_id r) \<notin> set (map row_id t) \<Longrightarrow>
     insert_values t (select_old r) = Inr (t @ [migrated r])"
  by (auto simp: select_old_def copyable_def migrated_def insert_values_ok)

lemma insert_all_old_Inr:
  "insert_all t (map select_old rs) = Inr t' \<Longrightarrow>
     t' = t @ map migrated rs \<and> (\<forall>r\<in>set rs. copyable r)"
proof (induction rs arbitrary: t)
  case Nil
  then show ?case by simp
next
  case (Cons r rs)
  from Cons.prems obtain t1 where
    a: "insert_values t (select_old r) = Inr t1" and
    b: "insert_all t1 (map select_old rs) = Inr t'"
    by (auto split: sum.splits)
  from select_old_Inr [OF a] Cons.IH [OF b] show ?case by simp
qed

lemma row_id_migrated: "row_id (migrated r) = dec (o_id r)"
  by (simp add: migrated_def)

lemma insert_all_old_ok:
  "\<forall>r\<in>set rs. copyable r \<Longrightarrow> distinct (map o_id rs) \<Longrightarrow>
   \<forall>r\<in>set rs. dec (o_id r) \<notin> set (map row_id t) \<Longrightarrow>
     insert_all t (map select_old rs) = Inr (t @ map migrated rs)"
proof (induction rs arbitrary: t)
  case Nil
  then show ?case by simp
next
  case (Cons r rs)
  have step: "insert_values t (select_old r) = Inr (t @ [migrated r])"
    using Cons.prems by (simp add: select_old_ok)
  have fresh: "\<forall>x\<in>set rs. dec (o_id x) \<notin> set (map row_id (t @ [migrated r]))"
  proof
    fix x assume x: "x \<in> set rs"
    from Cons.prems(2) have "o_id r \<notin> o_id ` set rs" by simp
    with x have "o_id x \<noteq> o_id r" by (metis imageI)
    then have "dec (o_id x) \<noteq> dec (o_id r)" using dec_inj by blast
    with x Cons.prems(3) show "dec (o_id x) \<notin> set (map row_id (t @ [migrated r]))"
      by (simp add: row_id_migrated)
  qed
  from Cons.prems have "\<forall>r\<in>set rs. copyable r" "distinct (map o_id rs)" by simp_all
  from Cons.IH [OF this fresh] step show ?case by simp
qed

lemma needsMigration_old: "needsMigration d \<longleftrightarrow> (\<exists>rs. emails d = Some (OldLayout rs))"
proof (cases "emails d")
  case None
  then show ?thesis by (simp add: needsMigration_def)
next
  case (Some t)
  then show ?thesis by (cases t) (simp_all add: needsMigration_def)
qed

lemma migrate_steps_copied:
  assumes e: "emails d = Some (OldLayout rs)" and n: "emails_new d = None"
    and c: "insert_all [] (map select_old rs) = Inr new"
  shows "migrate_steps (d, None) = (None, (migrated_db d new, None))"
proof -
  from insert_all_old_Inr [OF c] have len: "length new = length rs" by simp
  have t1: "exec copy_script (d, None) = (None, (d\<lparr>emails_new := Some new\<rparr>, None))"
    using e n c by (simp add: copy_script_def)
  have t2: "exec swap_script (d\<lparr>emails_new := Some new\<rparr>, None)
              = (None, (d\<lparr>emails := Some (NewLayout new), emails_new := None, indexes := []\<rparr>, None))"
    using e by (simp add: swap_script_def)
  have t3: "exec index_script
              (d\<lparr>emails := Some (NewLayout new), emails_new := None, indexes := []\<rparr>, None)
              = (None, (migrated_db d new, None))"
    by (simp add: migrated_db_def index_script_def)
  show ?thesis
    unfolding migrate_steps_def
    by (simp add: count_emails_def count_emails_new_def e t1 t2 t3 len del: exec.simps)
qed

lemma migrate_steps_new_exists:
  assumes e: "emails d = Some (OldLayout rs)" and n: "emails_new d \<noteq> None"
  shows "migrate_steps (d, None) = (Some (TableExists ''emails_new''), (d, Some d))"
proof -
  have t1: "exec copy_script (d, None) = (Some (TableExists ''emails_new''), (d, Some d))"
    using e n by (simp add: copy_script_def)
  show ?thesis
    unfolding migrate_steps_def
    by (simp add: count_emails_def e t1 del: exec.simps)
qed

subsection \<open>Claim C1: insert is idempotent\<close>

lemma find_append_last:
  "\<forall>x\<in>set xs. \<not> P x \<Longrightarrow> P y \<Longrightarrow> find P (xs @ [y]) = Some y"
  by (induction xs) simp_all

lemma filter_append_last:
  "\<forall>x\<in>set xs. \<not> P x \<Longrightarrow> P y \<Longrightarrow> filter P (xs @ [y]) = [y]"
  by (induction xs) simp_all

lemma row_id_row_of: "row_id (row_of m) = str_of (jget m ''id'')"
  by (simp add: row_of_def)

text \<open>
  Claim C1.  On an open store, for a Message \<open>m\<close> whose id is not in the store, the first
  \<open>storeEmail\<close> writes the row and returns \<open>true\<close>; a later call with any
  record \<open>m2\<close> carrying the same id returns \<open>false\<close> and leaves the store as it
  is.  The store then holds exactly one row with that id, with the field values of
  \<open>m\<close>, and one row more than before.
\<close>

theorem storeEmail_idempotent:
  assumes "is_open db" and "is_message m"
    and "str_of (jget m ''id'') \<notin> set (map row_id (rows db))"
    and "sql_bind (jget m2 ''id'') = sql_bind (jget m ''id'')"
  shows "\<exists>db1. storeEmail db m = Inr (True, db1) \<and>
               storeEmail db1 m2 = Inr (False, db1) \<and>
               filter (\<lambda>r. row_id r = str_of (jget m ''id'')) (rows db1) = [row_of m] \<and>
               getEmailById db1 (str_of (jget m ''id'')) = Inr (Some (row_of m)) \<and>
               countEmails db1 = Inr (length (rows db) + 1)"
proof -
  let ?i = "str_of (jget m ''id'')"
  let ?db1 = "db\<lparr>rows := rows db @ [row_of m]\<rparr>"
  from assms(2) have "is_string (jget m ''id'')" by (simp add: is_message_def)
  then have b: "sql_bind (jget m ''id'') = Inr (Some ?i)" by (rule is_string_bind)
  have first: "storeEmail db m = Inr (True, ?db1)"
    using assms(1,2,3) by (rule storeEmail_new)
  have "?i \<in> set (map row_id (rows ?db1))" by (simp add: row_id_row_of)
  with b assms(1,4) have second: "storeEmail ?db1 m2 = Inr (False, ?db1)"
    by (simp add: storeEmail_duplicate)
  from assms(3) have none: "\<forall>x\<in>set (rows db). \<not> row_id x = ?i"
    by (metis image_eqI set_map)
  have one: "filter (\<lambda>r. row_id r = ?i) (rows db @ [row_of m]) = [row_of m]"
    using none by (rule filter_append_last) (simp add: row_id_row_of)
  have "find (\<lambda>r. row_id r = ?i) (rows db @ [row_of m]) = Some (row_of m)"
    using none by (rule find_append_last) (simp add: row_id_row_of)
  then have get: "getEmailById ?db1 ?i = Inr (Some (row_of m))"
    using assms(1) by (simp add: getEmailById_def)
  from first second one get assms(1) show ?thesis by (simp add: countEmails_def)
qed

theorem storeEmail_idempotent_witness:
  "\<exists>db1. storeEmail \<lparr>is_open = True, rows = []\<rparr> msgA = Inr (True, db1) \<and>
         storeEmail db1 (AList.update ''body'' (JStr ''B'') msgA) = Inr (False, db1) \<and>
         map body (rows db1) = [''A''] \<and> countEmails db1 = Inr 1"
proof -
  let ?db = "\<lparr>is_open = True, rows = []\<rparr>"
  have m: "is_message msgA" by (simp add: is_message_def msgA_def jget_def)
  have o: "is_open ?db" by simp
  have f: "str_of (jget msgA ''id'') \<notin> set (map row_id (rows ?db))" by simp
  have s: "sql_bind (jget (AList.update ''body'' (JStr ''B'') msgA) ''id'')
            = sql_bind (jget msgA ''id'')"
    by (simp add: msgA_def jget_def)
  from storeEmail_idempotent [OF o m f s] obtain db1 where
    d: "storeEmail ?db msgA = Inr (True, db1)"
       "storeEmail db1 (AList.update ''body'' (JStr ''B'') msgA) = Inr (False, db1)"
       "filter (\<lambda>r. row_id r = str_of (jget msgA ''id'')) (rows db1) = [row_of msgA]"
       "countEmails db1 = Inr (length (rows ?db) + 1)"
    by blast
  from d(1) have "rows db1 = [row_of msgA]" by (auto simp: storeEmail_new [OF o m f])
  then have "map body (rows db1) = [''A'']" by (simp add: row_of_def msgA_def jget_def)
  with d show ?thesis by auto
qed

subsection \<open>Claim C7: the migration commits before it validates\<close>

lemma dec_eq_iff [simp]: "dec i = dec j \<longleftrightarrow> i = j"
  using dec_inj by blast

lemma preserves_migrated: "copyable r \<Longrightarrow> preserves r (migrated r)"
  by (auto simp: copyable_def preserves_def migrated_def)

lemma list_all2_migrated: "\<forall>r\<in>set rs. copyable r \<Longrightarrow> list_all2 preserves rs (map migrated rs)"
  by (induction rs) (simp_all add: preserves_migrated)

text \<open>
  What the migration does when nothing throws: a legacy table whose identifiers are
  distinct and whose mandatory columns hold no \<open>NULL\<close> becomes a table of the current
  layout with the same number of rows, each preserving its legacy row.
\<close>

lemma migrateSchema_rows:
  assumes "emails d = Some (OldLayout rs)" and "emails_new d = None"
    and "distinct (map o_id rs)" and "\<forall>r\<in>set rs. copyable r"
  shows "migrateSchema (d, None) = (None, (migrated_db d (map migrated rs), None))"
    and "list_all2 preserves rs (map migrated rs)"
    and "length (map migrated rs) = length rs"
proof -
  from assms(3,4) have "insert_all [] (map select_old rs) = Inr ([] @ map migrated rs)"
    by (intro insert_all_old_ok) simp_all
  with migrate_steps_copied [OF assms(1,2), of "map migrated rs"]
  show "migrateSchema (d, None) = (None, (migrated_db d (map migrated rs), None))"
    by (simp add: migrateSchema_def)
  from assms(4) show "list_all2 preserves rs (map migrated rs)" by (rule list_all2_migrated)
  show "length (map migrated rs) = length rs" by simp
qed

text \<open>
  Claim C7 against the code.  On the example legacy database (two rows) the migration
  is needed and the copy script runs to its own \<open>COMMIT\<close>: when the counts are then
  compared, \<open>emails_new\<close> with its two rows is in the database next to the legacy
  table and no transaction is open, so that the \<open>ROLLBACK\<close> of the \<open>catch\<close>
  block fails and undoes nothing.  A database left in that state still needs the
  migration, and every later \<open>initDatabase\<close> throws on \<open>CREATE TABLE emails_new\<close>
  and leaves it as it is.
\<close>

theorem migrateSchema_commits_before_validation:
  "needsMigration legacy_db \<and>
   emails_new legacy_db = None \<and>
   count_emails (legacy_db, None) = Inr 2 \<and>
   exec copy_script (legacy_db, None) = (None, (copied_db, None)) \<and>
   emails copied_db = emails legacy_db \<and>
   map row_id (case emails_new copied_db of Some new \<Rightarrow> new | None \<Rightarrow> []) = [''41'', ''42''] \<and>
   count_emails_new (copied_db, None) = Inr 2 \<and>
   sql_rollback (copied_db, None) = Inl NoTransaction \<and>
   needsMigration copied_db \<and>
   initDatabase copied_db =
     (Some (DatabaseInitFailed (SchemaMigrationFailed (TableExists ''emails_new''))),
      (copied_db, None))"
proof -
  let ?rs = "[legacy_row 41 ''first'', legacy_row 42 ''second'']"
  have e: "emails legacy_db = Some (OldLayout ?rs)" by (simp add: legacy_db_def)
  have ec: "emails copied_db = Some (OldLayout ?rs)" by (simp add: copied_db_def legacy_db_def)
  have nc: "emails_new copied_db \<noteq> None" by (simp add: copied_db_def)
  have "insert_all [] (map select_old ?rs) = Inr ([] @ map migrated ?rs)"
    by (rule insert_all_old_ok) (simp_all add: legacy_row_def copyable_def)
  then have copy: "exec copy_script (legacy_db, None) = (None, (copied_db, None))"
    by (simp add: copy_script_def legacy_db_def copied_db_def)
  have "dec 41 = ''41''" "dec 42 = ''42''" by code_simp+
  then have ids: "map row_id (case emails_new copied_db of Some new \<Rightarrow> new | None \<Rightarrow> [])
      = [''41'', ''42'']"
    by (simp add: copied_db_def migrated_def legacy_row_def)
  have cnt: "count_emails (legacy_db, None) = Inr 2"
    "count_emails_new (copied_db, None) = Inr 2"
    by (simp_all add: count_emails_def count_emails_new_def legacy_db_def copied_db_def)
  have rb: "sql_rollback (copied_db, None) = Inl NoTransaction" by simp
  have need: "needsMigration legacy_db" "needsMigration copied_db"
    using e ec by (auto simp: needsMigration_old)
  from migrate_steps_new_exists [OF ec nc]
  have "migrateSchema (copied_db, None) =
      (Some (SchemaMigrationFailed (TableExists ''emails_new'')), (copied_db, None))"
    by (simp add: migrateSchema_def)
  with need(2) have init: "initDatabase copied_db =
     (Some (DatabaseInitFailed (SchemaMigrationFailed (TableExists ''emails_new''))),
      (copied_db, None))"
    by (simp add: initDatabase_def)
  have n0: "emails_new legacy_db = None" by (simp add: legacy_db_def)
  from need n0 cnt copy e ec ids rb init show ?thesis by simp
qed

subsection \<open>Claim C8: state updates merge and replace atomically\<close>

lemma jget_update: "jget (AList.update k v s) k' = (if k' = k then Some v else jget s k')"
  by (simp add: jget_def update_conv')

lemma jget_fold_update:
  "jget (fold (\<lambda>(k, v). AList.update k v) u s) k
     = (case map_of (rev u) k of Some v \<Rightarrow> Some v | None \<Rightarrow> jget s k)"
proof (induction u arbitrary: s)
  case Nil
  then show ?case by simp
next
  case (Cons a u)
  obtain k' v' where a: "a = (k', v')" by (cases a)
  show ?case
    by (simp add: Cons.IH a jget_update map_add_def split: option.splits)
qed

lemma jget_spread:
  "jget (spread s u) k = (case assigned u k of Some v \<Rightarrow> Some v | None \<Rightarrow> jget s k)"
  by (simp add: spread_def assigned_def jget_fold_update)

lemma assigned_None: "k \<notin> fst ` set u \<Longrightarrow> assigned u k = None"
  by (simp add: assigned_def map_of_eq_None_iff)

lemma tmp_neq: "p @ ''.tmp'' \<noteq> p"
  by simp

lemma writeStateAtomic_ok:
  "writeStateAtomic fs p st = (None, (fs(p @ ''.tmp'' := None))(p \<mapsto> Json st))"
  by (simp add: writeStateAtomic_def writeFileSync_def renameSync_def Let_def)

lemma validateState_Inr: "validateState s = Inr s' \<Longrightarrow> s' = s"
  by (simp add: validateState_def split: option.splits)

lemma readState_file: "readState fs p = Inr s \<Longrightarrow> fs p = Some (Json s)"
  by (auto simp: readState_def split: option.splits file_data.splits sum.splits
      dest: validateState_Inr)

lemma readState_valid: "readState fs p = Inr s \<Longrightarrow> validateState s = Inr s"
  by (auto simp: readState_def split: option.splits file_data.splits sum.splits
      dest: validateState_Inr)

lemma updateState_ok:
  assumes "readState fs p = Inr s" and "validateState (spread s u) = Inr s'"
  shows "updateState fs p u = (Inr (spread s u), (fs(p @ ''.tmp'' := None))(p \<mapsto> Json (spread s u)))"
  using assms by (simp add: updateState_def Let_def writeStateAtomic_ok)

lemma updateState_invalid:
  assumes "readState fs p = Inr s" and "validateState (spread s u) = Inl e"
  shows "updateState fs p u = (Inl (StateUpdateFailed e), fs)"
  using assms by (simp add: updateState_def Let_def)

lemma crashed_old_or_new:
  assumes "fs p = Some (Json s)"
  shows "crashed cp fs p n p = Some (Json s) \<or> crashed cp fs p n p = Some (Json n)"
  using assms by (cases cp) (simp_all add: writeFileSync_def writeStateAtomic_ok)

text \<open>
  Claim C8.  Let \<open>s\<close> be the state that \<open>readState\<close> returns and \<open>u\<close> any
  updates.  The merged record \<open>spread s u\<close> gives every key of \<open>u\<close> its value in
  \<open>u\<close> and every other key its value in \<open>s\<close>.  If the merged record is valid,
  \<open>updateState\<close> returns it, the state file then holds exactly it, and reading the
  file gives it back; if it is not valid, \<open>updateState\<close> throws and writes nothing.
  At every point where the process can die during the write, the state file holds
  either the old record or the new one, whole.
\<close>

theorem updateState_merge_atomic:
  assumes "readState fs p = Inr s"
  shows "(\<forall>k. jget (spread s u) k = (case assigned u k of Some v \<Rightarrow> Some v | None \<Rightarrow> jget s k)) \<and>
         (\<forall>k. k \<notin> fst ` set u \<longrightarrow> jget (spread s u) k = jget s k) \<and>
         ((\<exists>s'. validateState (spread s u) = Inr s') \<longrightarrow>
            fst (updateState fs p u) = Inr (spread s u) \<and>
            snd (updateState fs p u) p = Some (Json (spread s u)) \<and>
            readState (snd (updateState fs p u)) p = Inr (spread s u)) \<and>
         (\<forall>e. validateState (spread s u) = Inl e \<longrightarrow>
            updateState fs p u = (Inl (StateUpdateFailed e), fs)) \<and>
         (\<forall>cp. crashed cp fs p (spread s u) p = Some (Json s) \<or>
               crashed cp fs p (spread s u) p = Some (Json (spread s u)))"
proof -
  have a: "\<forall>k. jget (spread s u) k = (case assigned u k of Some v \<Rightarrow> Some v | None \<Rightarrow> jget s k)"
    by (simp add: jget_spread)
  have b: "\<forall>k. k \<notin> fst ` set u \<longrightarrow> jget (spread s u) k = jget s k"
    by (simp add: jget_spread assigned_None)
  have c: "fst (updateState fs p u) = Inr (spread s u) \<and>
            snd (updateState fs p u) p = Some (Json (spread s u)) \<and>
            readState (snd (updateState fs p u)) p = Inr (spread s u)"
    if "\<exists>s'. validateState (spread s u) = Inr s'"
  proof -
    from that obtain s' where v: "validateState (spread s u) = Inr s'" by blast
    then have "s' = spread s u" by (rule validateState_Inr)
    with v updateState_ok [OF assms v] show ?thesis by (simp add: readState_def)
  qed
  have d: "\<forall>e. validateState (spread s u) = Inl e \<longrightarrow>
            updateState fs p u = (Inl (StateUpdateFailed e), fs)"
    using assms by (simp add: updateState_invalid)
  have e: "\<forall>cp. crashed cp fs p (spread s u) p = Some (Json s) \<or>
               crashed cp fs p (spread s u) p = Some (Json (spread s u))"
  proof
    fix cp
    from assms have "fs p = Some (Json s)" by (rule readState_file)
    then show "crashed cp fs p (spread s u) p = Some (Json s) \<or>
               crashed cp fs p (spread s u) p = Some (Json (spread s u))"
      by (rule crashed_old_or_new)
  qed
  from a b c d e show ?thesis by blast
qed


lemma validate_initial: "validateState INITIAL_STATE = Inr INITIAL_STATE"
  by (simp add: validateState_def state_problem_def INITIAL_STATE_def jget_def)

lemma read_first_run: "readState first_run_fs state_path = Inr INITIAL_STATE"
  by (simp add: readState_def first_run_fs_def validate_initial)

theorem updateState_merge_atomic_witness:
  "readState first_run_fs state_path = Inr INITIAL_STATE \<and>
   fst (updateState first_run_fs state_path
          [(''last_error'', JStr ''boom''), (''connection_status'', JStr ''reconnecting'')])
     = Inr [(''last_uid'', JInt 0),
            (''last_uid_received_at'', JStr ''1970-01-01T00:00:00.000Z''),
            (''last_connected_at'', JStr ''1970-01-01T00:00:00.000Z''),
            (''last_error'', JStr ''boom''),
            (''connection_status'', JStr ''reconnecting'')] \<and>
   jget (spread INITIAL_STATE
          [(''last_error'', JStr ''boom''), (''connection_status'', JStr ''reconnecting'')])
        ''last_uid'' = Some (JInt 0) \<and>
   crashed BeforeRename first_run_fs state_path
      (spread INITIAL_STATE
          [(''last_error'', JStr ''boom''), (''connection_status'', JStr ''reconnecting'')])
      state_path = Some (Json INITIAL_STATE)"
proof -
  let ?u = "[(''last_error'', JStr ''boom''), (''connection_status'', JStr ''reconnecting'')]"
  let ?n = "[(''last_uid'', JInt 0),
            (''last_uid_received_at'', JStr ''1970-01-01T00:00:00.000Z''),
            (''last_connected_at'', JStr ''1970-01-01T00:00:00.000Z''),
            (''last_error'', JStr ''boom''),
            (''connection_status'', JStr ''reconnecting'')]"
  have sp: "spread INITIAL_STATE ?u = ?n"
    by (simp add: spread_def INITIAL_STATE_def)
  have v: "\<exists>s'. validateState (spread INITIAL_STATE ?u) = Inr s'"
    by (simp add: sp validateState_def state_problem_def jget_def)
  have k: "''last_uid'' \<notin> fst ` set ?u" by simp
  note t = updateState_merge_atomic [OF read_first_run, of ?u]
  from t v have "fst (updateState first_run_fs state_path ?u) = Inr (spread INITIAL_STATE ?u)"
    by blast
  moreover from t k have "jget (spread INITIAL_STATE ?u) ''last_uid'' = jget INITIAL_STATE ''last_uid''"
    by blast
  moreover have "jget INITIAL_STATE ''last_uid'' = Some (JInt 0)"
    by (simp add: INITIAL_STATE_def jget_def)
  moreover have "crashed BeforeRename first_run_fs state_path (spread INITIAL_STATE ?u) state_path
      = Some (Json INITIAL_STATE)"
    by (simp add: writeFileSync_def first_run_fs_def)
  ultimately show ?thesis using read_first_run sp by simp
qed

subsection \<open>The email processor\<close>

lemma fetchEmail_shape: "fetchEmail w uid = (Inr r, fx) \<Longrightarrow> fetched_record r \<and> fx = [ImapFetch uid]"
  unfolding fetchEmail_def fetched_record_def
  by (auto simp: Let_def split: sum.splits option.splits)

lemma fetchEmail_fails: "fetchEmail w uid = (Inl e, fx) \<Longrightarrow> fx = [ImapFetch uid, Log ERROR ''Email fetch failed'']"
  unfolding fetchEmail_def
  by (auto simp: Let_def split: sum.splits option.splits)

lemma validate_fetched:
  assumes "fetched_record r" and "validateEmailRecord w r = Inr r'"
  shows "is_message r' \<and> jget r' ''id'' = jget r ''id'' \<and>
         jget r' ''downloaded_at'' = jget r ''downloaded_at'' \<and>
         is_string (jget r' ''downloaded_at'')"
proof -
  from assms(1) obtain i t ra da f ta c s l b where
    r: "r = [(''id'', JStr i), (''thread_id'', JStr t), (''received_at'', JStr ra),
             (''downloaded_at'', JStr da), (''from_address'', JStr f),
             (''to_address'', JStr ta), (''cc_address'', c), (''subject'', JStr s),
             (''labels'', JStr l), (''body'', JStr b)]"
    and c: "c = JNull \<or> (\<exists>x. c = JStr x)"
    unfolding fetched_record_def by blast
  show ?thesis
  proof (cases "l = []")
    case True
    with assms(2) c show ?thesis
      unfolding r validateEmailRecord_def
      by (auto simp: jget_def is_message_def Let_def split: if_splits)
  next
    case False
    with assms(2) c show ?thesis
      unfolding r validateEmailRecord_def
      by (auto simp: jget_def is_message_def Let_def split: if_splits)
  qed
qed


lemma valid_message_Some:
  assumes "valid_message w uid = Some m"
  shows "is_message m \<and> is_string (jget m ''downloaded_at'') \<and>
         (\<exists>r. fetchEmail w uid = (Inr r, [ImapFetch uid]) \<and> validateEmailRecord w r = Inr m)"
proof -
  from assms obtain r fx where f: "fetchEmail w uid = (Inr r, fx)"
    and v: "validateEmailRecord w r = Inr m"
    by (auto simp: valid_message_def split: prod.splits sum.splits)
  from fetchEmail_shape [OF f] have "fetched_record r" "fx = [ImapFetch uid]" by simp_all
  with validate_fetched [OF this(1) v] f v show ?thesis by auto
qed

lemma valid_message_None:
  assumes "valid_message w uid = None"
  shows "\<exists>fx. processEmail w db fs p uid = (False, db, fs, fx) \<and> fetched_uids fx = [uid]"
proof (cases "fetchEmail w uid")
  case (Pair res fx)
  show ?thesis
  proof (cases res)
    case (Inl e)
    with Pair fetchEmail_fails [of w uid e fx] show ?thesis
      by (simp add: processEmail_def)
  next
    case (Inr r)
    with Pair fetchEmail_shape [of w uid r fx] assms show ?thesis
      by (auto simp: processEmail_def valid_message_def split: sum.splits)
  qed
qed

lemma processEmail_closed:
  assumes "\<not> is_open db"
  shows "\<exists>fx. processEmail w db fs p uid = (False, db, fs, fx) \<and> fetched_uids fx = [uid]"
proof (cases "valid_message w uid")
  case None
  then show ?thesis by (rule valid_message_None)
next
  case (Some m)
  from valid_message_Some [OF Some] obtain r where
    "fetchEmail w uid = (Inr r, [ImapFetch uid])" "validateEmailRecord w r = Inr m" by blast
  with assms show ?thesis by (simp add: processEmail_def storeEmail_def)
qed

lemma processEmail_duplicate:
  assumes "is_open db" and "valid_message w uid = Some m"
    and "str_of (jget m ''id'') \<in> set (map row_id (rows db))"
  shows "\<exists>fx. processEmail w db fs p uid = (False, db, fs, fx) \<and> fetched_uids fx = [uid]"
proof -
  from valid_message_Some [OF assms(2)] obtain r where
    m: "is_message m" and f: "fetchEmail w uid = (Inr r, [ImapFetch uid])"
    and v: "validateEmailRecord w r = Inr m" by blast
  from m have "is_string (jget m ''id'')" by (simp add: is_message_def)
  then have "sql_bind (jget m ''id'') = Inr (Some (str_of (jget m ''id'')))"
    by (rule is_string_bind)
  with assms(1,3) have "storeEmail db m = Inr (False, db)" by (simp add: storeEmail_duplicate)
  with f v show ?thesis by (simp add: processEmail_def)
qed

lemma processEmail_new:
  assumes "is_open db" and "valid_message w uid = Some m"
    and "str_of (jget m ''id'') \<notin> set (map row_id (rows db))"
  shows "\<exists>ok fs' fx. processEmail w db fs p uid
                        = (ok, db\<lparr>rows := rows db @ [row_of m]\<rparr>, fs', fx) \<and>
                      fetched_uids fx = [uid] \<and>
                      (ok, fs') = (case updateState fs p
                                          (literal [(''last_id'', jget m ''id''),
                                                    (''last_id_received_at'', jget m ''downloaded_at''),
                                                    (''last_error'', Some JNull)]) of
                                     (Inl e, fs') \<Rightarrow> (False, fs')
                                   | (Inr s, fs') \<Rightarrow> (True, fs'))"
proof -
  from valid_message_Some [OF assms(2)] obtain r where
    m: "is_message m" and f: "fetchEmail w uid = (Inr r, [ImapFetch uid])"
    and v: "validateEmailRecord w r = Inr m" by blast
  from assms(1) m assms(3) have "storeEmail db m = Inr (True, db\<lparr>rows := rows db @ [row_of m]\<rparr>)"
    by (rule storeEmail_new)
  with f v show ?thesis
    by (auto simp: processEmail_def split: prod.splits sum.splits)
qed

lemma fetched_uids_append: "fetched_uids (xs @ ys) = fetched_uids xs @ fetched_uids ys"
  by (induction xs rule: fetched_uids.induct) simp_all

lemma processEmail_summary:
  "\<exists>ok db' fs' fx.
     processEmail w db fs p uid = (ok, db', fs', fx) \<and> fetched_uids fx = [uid] \<and>
     is_open db' = is_open db \<and>
     (rows db' = rows db \<or> (\<exists>m. valid_message w uid = Some m \<and> rows db' = rows db @ [row_of m])) \<and>
     (is_open db \<longrightarrow>
        (\<forall>m. valid_message w uid = Some m \<longrightarrow>
             str_of (jget m ''id'') \<in> set (map row_id (rows db'))))"
proof (cases "is_open db")
  case False
  from processEmail_closed [OF False, of w fs p uid] False show ?thesis by auto
next
  case True
  show ?thesis
  proof (cases "valid_message w uid")
    case None
    from valid_message_None [OF None, of db fs p] show ?thesis using None by auto
  next
    case (Some m)
    show ?thesis
    proof (cases "str_of (jget m ''id'') \<in> set (map row_id (rows db))")
      case dup: True
      from processEmail_duplicate [OF True Some dup, of fs p] Some dup show ?thesis by auto
    next
      case new: False
      from processEmail_new [OF True Some new, of fs p] obtain ok fs' fx where
        "processEmail w db fs p uid = (ok, db\<lparr>rows := rows db @ [row_of m]\<rparr>, fs', fx)"
        "fetched_uids fx = [uid]" by blast
      with Some True show ?thesis by (auto simp: row_id_row_of)
    qed
  qed
qed

lemma process_each_batch:
  "fetched_uids (effects (process_each w p uids a)) = fetched_uids (effects a) @ uids \<and>
   is_open (app_db (process_each w p uids a)) = is_open (app_db a) \<and>
   set (rows (app_db a)) \<subseteq> set (rows (app_db (process_each w p uids a))) \<and>
   (\<forall>row\<in>set (rows (app_db (process_each w p uids a))).
      row \<in> set (rows (app_db a)) \<or>
      (\<exists>uid\<in>set uids. \<exists>m. valid_message w uid = Some m \<and> row = row_of m)) \<and>
   (is_open (app_db a) \<longrightarrow>
      (\<forall>uid\<in>set uids. \<forall>m. valid_message w uid = Some m \<longrightarrow>
           str_of (jget m ''id'') \<in> set (map row_id (rows (app_db (process_each w p uids a))))))"
proof (induction uids arbitrary: a)
  case Nil
  show ?case by simp
next
  case (Cons uid uids)
  from processEmail_summary [of w "app_db a" "app_fs a" p uid] obtain ok db' fs' fx where
    step: "processEmail w (app_db a) (app_fs a) p uid = (ok, db', fs', fx)"
    and fu: "fetched_uids fx = [uid]"
    and op: "is_open db' = is_open (app_db a)"
    and rw: "rows db' = rows (app_db a) \<or>
             (\<exists>m. valid_message w uid = Some m \<and> rows db' = rows (app_db a) @ [row_of m])"
    and st: "is_open (app_db a) \<longrightarrow>
             (\<forall>m. valid_message w uid = Some m \<longrightarrow>
                  str_of (jget m ''id'') \<in> set (map row_id (rows db')))"
    by blast
  let ?a1 = "a\<lparr>app_db := db', app_fs := fs', effects := effects a @ fx\<rparr>"
  let ?res = "process_each w p uids ?a1"
  have unfold: "process_each w p (uid # uids) a = ?res" using step by simp
  note IH = Cons.IH [of ?a1]
  have sub: "set (rows (app_db a)) \<subseteq> set (rows db')" using rw by auto
  have c1: "fetched_uids (effects ?res) = fetched_uids (effects a) @ uid # uids"
    using IH fu by (simp add: fetched_uids_append)
  have c2: "is_open (app_db ?res) = is_open (app_db a)" using IH op by simp
  have c3: "set (rows (app_db a)) \<subseteq> set (rows (app_db ?res))" using IH sub by auto
  have c4: "\<forall>row\<in>set (rows (app_db ?res)).
      row \<in> set (rows (app_db a)) \<or>
      (\<exists>u\<in>set (uid # uids). \<exists>m. valid_message w u = Some m \<and> row = row_of m)"
  proof
    fix row assume "row \<in> set (rows (app_db ?res))"
    with IH have "row \<in> set (rows db') \<or>
      (\<exists>u\<in>set uids. \<exists>m. valid_message w u = Some m \<and> row = row_of m)" by simp
    with rw show "row \<in> set (rows (app_db a)) \<or>
      (\<exists>u\<in>set (uid # uids). \<exists>m. valid_message w u = Some m \<and> row = row_of m)" by auto
  qed
  have c5: "is_open (app_db a) \<longrightarrow>
      (\<forall>u\<in>set (uid # uids). \<forall>m. valid_message w u = Some m \<longrightarrow>
           str_of (jget m ''id'') \<in> set (map row_id (rows (app_db ?res))))"
  proof (intro impI ballI allI)
    fix u m
    assume o: "is_open (app_db a)" and u: "u \<in> set (uid # uids)"
      and m: "valid_message w u = Some m"
    show "str_of (jget m ''id'') \<in> set (map row_id (rows (app_db ?res)))"
    proof (cases "u \<in> set uids")
      case True
      with IH o op m show ?thesis by simp
    next
      case False
      with u have "u = uid" by simp
      with st o m have "str_of (jget m ''id'') \<in> set (map row_id (rows db'))" by simp
      moreover from IH have "set (rows db') \<subseteq> set (rows (app_db ?res))" by simp
      ultimately show ?thesis by auto
    qed
  qed
  from c1 c2 c3 c4 c5 show ?case unfolding unfold by blast
qed

lemma state_problem_None_iff:
  "state_problem s = None \<longleftrightarrow>
     jget s ''last_uid'' \<noteq> None \<and> jget s ''last_uid_received_at'' \<noteq> None \<and>
     jget s ''last_connected_at'' \<noteq> None \<and> jget s ''last_error'' \<noteq> None \<and>
     jget s ''connection_status'' \<noteq> None \<and>
     (case jget s ''last_uid'' of Some (JInt n) \<Rightarrow> 0 \<le> n | _ \<Rightarrow> False) \<and>
     jget s ''connection_status''
        \<in> set (map (\<lambda>s. Some (JStr s)) [''connected'', ''reconnecting'', ''disconnected'']) \<and>
     truthy (jget s ''last_uid_received_at'') \<and> is_string (jget s ''last_uid_received_at'') \<and>
     truthy (jget s ''last_connected_at'') \<and> is_string (jget s ''last_connected_at'') \<and>
     (jget s ''last_error'' = Some JNull \<or> is_string (jget s ''last_error''))"
  unfolding state_problem_def
  by (simp split: option.split) blast

lemma progress_update_keys:
  assumes "is_string (jget m ''id'')" and "is_string (jget m ''downloaded_at'')"
  shows "progress_update m =
           [(''last_id'', JStr (str_of (jget m ''id''))),
            (''last_id_received_at'', JStr (str_of (jget m ''downloaded_at''))),
            (''last_error'', JNull)]"
proof -
  from assms(1) obtain i where "jget m ''id'' = Some (JStr i)"
    by (cases "jget m ''id''" rule: is_string.cases) simp_all
  moreover from assms(2) obtain d where "jget m ''downloaded_at'' = Some (JStr d)"
    by (cases "jget m ''downloaded_at''" rule: is_string.cases) simp_all
  ultimately show ?thesis by (simp add: progress_update_def)
qed

lemma jget_progress:
  assumes "is_string (jget m ''id'')" and "is_string (jget m ''downloaded_at'')"
  shows "jget (spread s (progress_update m)) k =
           (if k = ''last_error'' then Some JNull
            else if k = ''last_id_received_at'' then jget m ''downloaded_at''
            else if k = ''last_id'' then jget m ''id''
            else jget s k)"
proof -
  from assms(1) obtain i where i: "jget m ''id'' = Some (JStr i)"
    by (cases "jget m ''id''" rule: is_string.cases) simp_all
  from assms(2) obtain d where d: "jget m ''downloaded_at'' = Some (JStr d)"
    by (cases "jget m ''downloaded_at''" rule: is_string.cases) simp_all
  show ?thesis
    by (simp add: jget_spread assigned_def progress_update_def i d)
qed

lemma progress_update_valid:
  assumes "validateState s = Inr s"
    and "is_string (jget m ''id'')" and "is_string (jget m ''downloaded_at'')"
  shows "validateState (spread s (progress_update m)) = Inr (spread s (progress_update m))"
proof -
  from assms(1) have "state_problem s = None"
    by (simp add: validateState_def split: option.splits)
  then have "state_problem (spread s (progress_update m)) = None"
    unfolding state_problem_None_iff by (simp add: jget_progress [OF assms(2,3)])
  then show ?thesis by (simp add: validateState_def)
qed

lemma processEmail_stored:
  assumes "is_open db" and "valid_message w uid = Some m"
    and "str_of (jget m ''id'') \<notin> set (map row_id (rows db))"
    and "readState fs p = Inr s"
  shows "processEmail w db fs p uid =
           (True, db\<lparr>rows := rows db @ [row_of m]\<rparr>,
            (fs(p @ ''.tmp'' := None))(p \<mapsto> Json (spread s (progress_update m))),
            [Log DEBUG ''Processing email'', ImapFetch uid,
             Log INFO ''Email processed successfully''])"
proof -
  from valid_message_Some [OF assms(2)] obtain r where
    m: "is_message m" and dl: "is_string (jget m ''downloaded_at'')"
    and f: "fetchEmail w uid = (Inr r, [ImapFetch uid])"
    and v: "validateEmailRecord w r = Inr m" by blast
  from m have idm: "is_string (jget m ''id'')" by (simp add: is_message_def)
  from assms(1) m assms(3) have st: "storeEmail db m = Inr (True, db\<lparr>rows := rows db @ [row_of m]\<rparr>)"
    by (rule storeEmail_new)
  from readState_valid [OF assms(4)] idm dl
  have "validateState (spread s (progress_update m)) = Inr (spread s (progress_update m))"
    by (rule progress_update_valid)
  with assms(4) have "updateState fs p (progress_update m) =
      (Inr (spread s (progress_update m)),
       (fs(p @ ''.tmp'' := None))(p \<mapsto> Json (spread s (progress_update m))))"
    by (rule updateState_ok)
  with f v st show ?thesis
    by (simp add: processEmail_def progress_update_def)
qed

lemma dec_digit: "0 \<le> i \<Longrightarrow> i < 10 \<Longrightarrow> dec i = [digit_char (nat i)]"
  by (simp add: dec_def dec_nat.simps)

lemma example_headers:
  "parseHeaders example_header_block
     = [(''from'', ''alice@example.com''), (''to'', ''bob@example.com'')]"
  by code_simp

lemma example_headers2:
  "parseHeaders ''Subject: no sender'' = [(''subject'', ''no sender'')]"
  by code_simp

lemma valid_1: "valid_message example_env 1 = Some (example_record 1)"
  by (simp add: valid_message_def fetchEmail_def example_env_def example_fetch_def
      example_parser_def example_attrs_def attrs_id_def example_headers or_empty_def
      validateEmailRecord_def jget_def example_record_def example_stringify_def
      example_parse_array_def example_clock_def Let_def)

lemma valid_3: "valid_message example_env 3 = Some (example_record 3)"
  by (simp add: valid_message_def fetchEmail_def example_env_def example_fetch_def
      example_parser_def example_attrs_def attrs_id_def example_headers or_empty_def
      validateEmailRecord_def jget_def example_record_def example_stringify_def
      example_parse_array_def example_clock_def Let_def)

lemma valid_2: "valid_message example_env 2 = None"
  by (simp add: valid_message_def fetchEmail_def example_env_def example_fetch_def
      example_parser_def example_attrs_def attrs_id_def example_headers2 or_empty_def
      validateEmailRecord_def jget_def example_stringify_def
      example_parse_array_def example_clock_def Let_def)

lemma readState_last_uid:
  assumes "readState fs p = Inr s"
  shows "\<exists>n. jget s ''last_uid'' = Some (JInt n) \<and> 0 \<le> n"
proof -
  from readState_valid [OF assms] have "state_problem s = None"
    by (simp add: validateState_def split: option.splits)
  then have "case jget s ''last_uid'' of Some (JInt n) \<Rightarrow> 0 \<le> n | _ \<Rightarrow> False"
    unfolding state_problem_None_iff by blast
  then show ?thesis by (auto split: option.splits json.splits)
qed

lemma on_mail_run:
  assumes "\<not> isShuttingDown a" and "imap_search w = Inr uids"
    and "readState (app_fs a) p = Inr s" and "jget s ''last_uid'' = Some (JInt n)"
    and "filter (\<lambda>uid. n < uid) uids \<noteq> []"
  shows "on_mail w p a =
           process_each w p (filter (\<lambda>uid. n < uid) uids)
             (a\<lparr>effects := effects a @ [Log DEBUG ''New mail event'', ImapSearch,
                                         Log INFO ''Processing new emails'']\<rparr>)"
  using assms by (simp add: on_mail_def Let_def)

lemma readState_written:
  "validateState s = Inr s \<Longrightarrow> readState (fs(p \<mapsto> Json s)) p = Inr s"
  by (simp add: readState_def)

lemma valid_one: "valid_message one_message_env 1 = Some (example_record 1)"
  by (simp add: one_message_env_def valid_message_def fetchEmail_def example_env_def
      example_fetch_def example_parser_def example_attrs_def attrs_id_def example_headers
      or_empty_def validateEmailRecord_def jget_def example_record_def
      example_stringify_def example_parse_array_def example_clock_def Let_def)

lemma spread_first: "spread INITIAL_STATE (progress_update (example_record 1)) = state_after_first"
  by (simp add: spread_def INITIAL_STATE_def progress_update_def example_record_def jget_def
      state_after_first_def example_clock_def)

lemma valid_after_first: "validateState state_after_first = Inr state_after_first"
  by (simp add: validateState_def state_problem_def state_after_first_def jget_def)

text \<open>
  The loop on the example mailbox, from an empty store and the initial state: message 1
  is stored and recorded in the state file, message 2 fails and message 3 is found to
  be in the store already.
\<close>

lemma process_each_example:
  assumes "app_db a = \<lparr>is_open = True, rows = []\<rparr>" and "app_fs a = first_run_fs"
  shows "\<exists>fx2 fx3.
    process_each example_env state_path [1, 2, 3] a =
      a\<lparr>app_db := \<lparr>is_open = True, rows = [row_of (example_record 1)]\<rparr>,
        app_fs := (first_run_fs(state_path @ ''.tmp'' := None))
                    (state_path \<mapsto> Json state_after_first),
        effects := effects a
          @ [Log DEBUG ''Processing email'', ImapFetch 1, Log INFO ''Email processed successfully'']
          @ fx2 @ fx3\<rparr> \<and>
    fetched_uids fx2 = [2] \<and> fetched_uids fx3 = [3]"
proof -
  let ?db0 = "\<lparr>is_open = True, rows = []\<rparr>"
  let ?db1 = "\<lparr>is_open = True, rows = [row_of (example_record 1)]\<rparr>"
  let ?fs1 = "(first_run_fs(state_path @ ''.tmp'' := None))(state_path \<mapsto> Json state_after_first)"
  have step1: "processEmail example_env ?db0 first_run_fs state_path 1 =
      (True, ?db1, ?fs1,
       [Log DEBUG ''Processing email'', ImapFetch 1, Log INFO ''Email processed successfully''])"
    using processEmail_stored [of ?db0 example_env 1 "example_record 1" first_run_fs
        state_path INITIAL_STATE, OF _ valid_1 _ read_first_run]
    by (simp add: spread_first)
  from valid_message_None [OF valid_2, of ?db1 ?fs1 state_path] obtain fx2 where
    step2: "processEmail example_env ?db1 ?fs1 state_path 2 = (False, ?db1, ?fs1, fx2)"
    and f2: "fetched_uids fx2 = [2]" by blast
  have dup3: "str_of (jget (example_record 3) ''id'') \<in> set (map row_id (rows ?db1))"
    by (simp add: example_record_def jget_def row_of_def)
  from processEmail_duplicate [of ?db1 example_env 3 "example_record 3" ?fs1 state_path,
      OF _ valid_3 dup3] obtain fx3 where
    step3: "processEmail example_env ?db1 ?fs1 state_path 3 = (False, ?db1, ?fs1, fx3)"
    and f3: "fetched_uids fx3 = [3]" by auto
  have "process_each example_env state_path [1, 2, 3] a =
      a\<lparr>app_db := ?db1, app_fs := ?fs1,
        effects := effects a
          @ [Log DEBUG ''Processing email'', ImapFetch 1, Log INFO ''Email processed successfully'']
          @ fx2 @ fx3\<rparr>"
    by (simp add: assms step1 step2 step3)
  with f2 f3 show ?thesis by blast
qed

lemma initialize_first_run:
  "fst (initialize one_message_env empty_database no_files state_path) = Some started_app"
proof -
  have db: "initDatabase empty_database =
      (None, (\<lparr>emails = Some (NewLayout []), emails_new = None,
               indexes = [''idx_downloaded_at'', ''idx_from_address'', ''idx_thread_id'']\<rparr>, None))"
    by (simp add: initDatabase_def needsMigration_def empty_database_def)
  have fs: "(no_files(state_path @ ''.tmp'' := None))(state_path \<mapsto> Json INITIAL_STATE) = first_run_fs"
    by (simp add: no_files_def first_run_fs_def)
  have st: "initState no_files state_path = (Inr INITIAL_STATE, first_run_fs)"
    by (simp add: initState_def writeStateAtomic_ok fs) (simp add: no_files_def)
  show ?thesis
    by (simp add: initialize_def db st one_message_env_def example_env_def handle_of_def
        started_app_def Let_def)
qed

subsection \<open>Claims C10 and C9: a failing message changes nothing; what a batch stores\<close>

text \<open>
  Claim C10.  When the fetch throws (the IMAP fetch or the parser), or the validation
  throws, or \<open>storeEmail\<close> throws, \<open>processEmail\<close> returns \<open>false\<close> (it has
  no way to throw), and the store and every file, the state file among them, are exactly
  what they were: \<open>updateState\<close> is reached only after a successful store.
\<close>

theorem processEmail_failure_leaves_state:
  assumes "(\<exists>e fx. fetchEmail w uid = (Inl e, fx)) \<or>
           (\<exists>r fx e. fetchEmail w uid = (Inr r, fx) \<and> validateEmailRecord w r = Inl e) \<or>
           (\<exists>r fx m e. fetchEmail w uid = (Inr r, fx) \<and> validateEmailRecord w r = Inr m \<and>
                        storeEmail db m = Inl e)"
  shows "\<exists>fx. processEmail w db fs p uid = (False, db, fs, fx)"
  using assms by (auto simp: processEmail_def)

theorem processEmail_failure_leaves_state_witness:
  "(\<exists>fx. processEmail example_env \<lparr>is_open = True, rows = []\<rparr> first_run_fs state_path 7
           = (False, \<lparr>is_open = True, rows = []\<rparr>, first_run_fs, fx)) \<and>
   (\<exists>fx. processEmail example_env \<lparr>is_open = True, rows = []\<rparr> first_run_fs state_path 2
           = (False, \<lparr>is_open = True, rows = []\<rparr>, first_run_fs, fx)) \<and>
   (\<exists>fx. processEmail example_env \<lparr>is_open = False, rows = []\<rparr> first_run_fs state_path 1
           = (False, \<lparr>is_open = False, rows = []\<rparr>, first_run_fs, fx)) \<and>
   readState first_run_fs state_path = Inr INITIAL_STATE"
proof -
  have a: "\<exists>e fx. fetchEmail example_env 7 = (Inl e, fx)"
    by (simp add: fetchEmail_def example_env_def example_fetch_def)
  from valid_2 have b: "\<exists>r fx e. fetchEmail example_env 2 = (Inr r, fx) \<and>
      validateEmailRecord example_env r = Inl e"
    by (auto simp: valid_message_def fetchEmail_def example_env_def example_fetch_def
        example_parser_def Let_def split: sum.splits)
  from valid_message_Some [OF valid_1] obtain r where
    "fetchEmail example_env 1 = (Inr r, [ImapFetch 1])"
    "validateEmailRecord example_env r = Inr (example_record 1)" by blast
  moreover have "storeEmail \<lparr>is_open = False, rows = []\<rparr> (example_record 1)
      = Inl (EmailInsertionFailed DatabaseClosed)"
    by (simp add: storeEmail_def)
  ultimately have c: "\<exists>r fx m e. fetchEmail example_env 1 = (Inr r, fx) \<and>
      validateEmailRecord example_env r = Inr m \<and>
      storeEmail \<lparr>is_open = False, rows = []\<rparr> m = Inl e" by blast
  show ?thesis
    using processEmail_failure_leaves_state [of example_env 7, OF disjI1, OF a]
      processEmail_failure_leaves_state [of example_env 2, OF disjI2, OF disjI1, OF b]
      processEmail_failure_leaves_state [of example_env 1, OF disjI2, OF disjI2, OF c]
      read_first_run
    by blast
qed

text \<open>
  Claim C9 against the code.  The batch is the example mailbox: messages 1 and 3 are
  valid, message 2 is malformed.  The loop fetches all three, so the malformed message
  stops nothing; but the store ends with one row, the one of message 1.  Message 3,
  fetched three seconds later, is not stored: every record gets the id
  \<open>undefined\<close>, and the store takes message 3 for a duplicate of message 1.
\<close>

theorem process_each_drops_valid_message:
  "valid_message example_env 1 = Some (example_record 1) \<and>
   valid_message example_env 2 = None \<and>
   valid_message example_env 3 = Some (example_record 3) \<and>
   downloaded_at (row_of (example_record 3)) = ''2025-11-01T12:00:03.000Z'' \<and>
   fetched_uids (effects (process_each example_env state_path [1, 2, 3] started_app)) = [1, 2, 3] \<and>
   countEmails (app_db (process_each example_env state_path [1, 2, 3] started_app)) = Inr 1 \<and>
   rows (app_db (process_each example_env state_path [1, 2, 3] started_app))
     = [row_of (example_record 1)] \<and>
   map row_id (rows (app_db (process_each example_env state_path [1, 2, 3] started_app)))
     = [''undefined''] \<and>
   map downloaded_at (rows (app_db (process_each example_env state_path [1, 2, 3] started_app)))
     = [''2025-11-01T12:00:00.000Z'']"
proof -
  have "app_db started_app = \<lparr>is_open = True, rows = []\<rparr>" "app_fs started_app = first_run_fs"
    by (simp_all add: started_app_def)
  from process_each_example [OF this] obtain fx2 fx3 where
    run: "process_each example_env state_path [1, 2, 3] started_app =
      started_app\<lparr>app_db := \<lparr>is_open = True, rows = [row_of (example_record 1)]\<rparr>,
        app_fs := (first_run_fs(state_path @ ''.tmp'' := None))
                    (state_path \<mapsto> Json state_after_first),
        effects := effects started_app
          @ [Log DEBUG ''Processing email'', ImapFetch 1, Log INFO ''Email processed successfully'']
          @ fx2 @ fx3\<rparr>"
    and f: "fetched_uids fx2 = [2]" "fetched_uids fx3 = [3]" by blast
  have fe: "fetched_uids (effects (process_each example_env state_path [1, 2, 3] started_app)) = [1, 2, 3]"
    unfolding run by (simp add: fetched_uids_append f started_app_def)
  have rw: "rows (app_db (process_each example_env state_path [1, 2, 3] started_app))
     = [row_of (example_record 1)]"
    unfolding run by simp
  have cn: "countEmails (app_db (process_each example_env state_path [1, 2, 3] started_app)) = Inr 1"
    unfolding run by (simp add: countEmails_def)
  have r1: "row_id (row_of (example_record 1)) = ''undefined''"
    "downloaded_at (row_of (example_record 1)) = ''2025-11-01T12:00:00.000Z''"
    "downloaded_at (row_of (example_record 3)) = ''2025-11-01T12:00:03.000Z''"
    by (simp_all add: row_of_def example_record_def jget_def example_clock_def)
  from valid_1 valid_2 valid_3 fe cn rw r1 show ?thesis by simp
qed

subsection \<open>Claim C2: the first message\<close>

lemma read_initial_file:
  "fs p = Some (Json INITIAL_STATE) \<Longrightarrow> readState fs p = Inr INITIAL_STATE"
  by (simp add: readState_def validate_initial)

text \<open>
  Claim C2, as amended.  On an open, empty store and a state file holding the initial
  state, processing one valid message returns \<open>true\<close>; the store then counts one
  row, the row of that message; the state file holds a valid state whose
  \<open>last_id_received_at\<close> is the time the message was downloaded, whose
  \<open>last_error\<close> is \<open>null\<close>, and whose \<open>connection_status\<close> is still
  \<open>disconnected\<close>.
\<close>

theorem first_message_processed:
  assumes "is_open db" and "rows db = []" and "fs p = Some (Json INITIAL_STATE)"
    and "valid_message w uid = Some m"
  shows "\<exists>db' fs' fx s'.
           processEmail w db fs p uid = (True, db', fs', fx) \<and>
           countEmails db' = Inr 1 \<and>
           rows db' = [row_of m] \<and>
           readState fs' p = Inr s' \<and>
           jget s' ''last_id_received_at'' = jget m ''downloaded_at'' \<and>
           jget s' ''last_error'' = Some JNull \<and>
           jget s' ''connection_status'' = Some (JStr ''disconnected'')"
proof -
  let ?s' = "spread INITIAL_STATE (progress_update m)"
  let ?db' = "db\<lparr>rows := rows db @ [row_of m]\<rparr>"
  let ?fs' = "(fs(p @ ''.tmp'' := None))(p \<mapsto> Json ?s')"
  from valid_message_Some [OF assms(4)] have m: "is_message m"
    and dl: "is_string (jget m ''downloaded_at'')" by simp_all
  from m have idm: "is_string (jget m ''id'')" by (simp add: is_message_def)
  from assms(3) have rd: "readState fs p = Inr INITIAL_STATE" by (rule read_initial_file)
  from assms(2) have fresh: "str_of (jget m ''id'') \<notin> set (map row_id (rows db))" by simp
  have run: "processEmail w db fs p uid =
      (True, ?db', ?fs',
       [Log DEBUG ''Processing email'', ImapFetch uid, Log INFO ''Email processed successfully''])"
    using assms(1,4) fresh rd by (rule processEmail_stored)
  have cnt: "countEmails ?db' = Inr 1" using assms(1,2) by (simp add: countEmails_def)
  have rws: "rows ?db' = [row_of m]" using assms(2) by simp
  have "validateState ?s' = Inr ?s'"
    using validate_initial idm dl by (rule progress_update_valid)
  then have rd': "readState ?fs' p = Inr ?s'" by (rule readState_written)
  have g: "jget ?s' ''last_id_received_at'' = jget m ''downloaded_at''"
    "jget ?s' ''last_error'' = Some JNull"
    "jget ?s' ''connection_status'' = Some (JStr ''disconnected'')"
    by (simp_all add: jget_progress [OF idm dl]) (simp add: INITIAL_STATE_def jget_def)
  from run cnt rws rd' g show ?thesis by blast
qed

theorem first_message_processed_witness:
  "\<exists>db' fs' fx s'.
     processEmail one_message_env \<lparr>is_open = True, rows = []\<rparr> first_run_fs state_path 1
       = (True, db', fs', fx) \<and>
     countEmails db' = Inr 1 \<and> readState fs' state_path = Inr s' \<and>
     jget s' ''last_id_received_at'' = Some (JStr ''2025-11-01T12:00:00.000Z'') \<and>
     jget s' ''last_error'' = Some JNull \<and>
     jget s' ''connection_status'' = Some (JStr ''disconnected'')"
proof -
  have f: "first_run_fs state_path = Some (Json INITIAL_STATE)" by (simp add: first_run_fs_def)
  have i: "jget (example_record 1) ''downloaded_at'' = Some (JStr ''2025-11-01T12:00:00.000Z'')"
    by (simp add: example_record_def jget_def example_clock_def)
  from first_message_processed [of "\<lparr>is_open = True, rows = []\<rparr>" first_run_fs state_path
      one_message_env 1 "example_record 1", OF _ _ f valid_one] i
  show ?thesis by auto
qed

lemma on_mail_first:
  "on_mail one_message_env state_path started_app =
     started_app
       \<lparr>app_db := \<lparr>is_open = True, rows = [row_of (example_record 1)]\<rparr>,
        app_fs := (first_run_fs(state_path @ ''.tmp'' := None))(state_path \<mapsto> Json state_after_first),
        effects := effects started_app
          @ [Log DEBUG ''New mail event'', ImapSearch, Log INFO ''Processing new emails'',
             Log DEBUG ''Processing email'', ImapFetch 1,
             Log INFO ''Email processed successfully'']\<rparr>"
proof -
  have s: "\<not> isShuttingDown started_app" by (simp add: started_app_def)
  have q: "imap_search one_message_env = Inr [1]"
    by (simp add: one_message_env_def)
  have r: "readState (app_fs started_app) state_path = Inr INITIAL_STATE"
    by (simp add: started_app_def read_first_run)
  have l: "jget INITIAL_STATE ''last_uid'' = Some (JInt 0)"
    by (simp add: INITIAL_STATE_def jget_def)
  have ne: "filter (\<lambda>uid. 0 < uid) [1 :: int] \<noteq> []" by simp
  have step: "processEmail one_message_env \<lparr>is_open = True, rows = []\<rparr> first_run_fs state_path 1 =
      (True, \<lparr>is_open = True, rows = []\<rparr>\<lparr>rows := rows \<lparr>is_open = True, rows = []\<rparr> @ [row_of (example_record 1)]\<rparr>,
       (first_run_fs(state_path @ ''.tmp'' := None))
         (state_path \<mapsto> Json (spread INITIAL_STATE (progress_update (example_record 1)))),
       [Log DEBUG ''Processing email'', ImapFetch 1, Log INFO ''Email processed successfully''])"
    by (rule processEmail_stored [OF _ valid_one _ read_first_run]) simp_all
  show ?thesis
    unfolding on_mail_run [OF s q r l ne]
    by (simp add: started_app_def step spread_first)
qed

text \<open>
  Claim C2 as stated fails.  A first start on an empty database and no state file gives
  the application \<open>started_app\<close>; after the one message of the mailbox (UID 1) has
  been processed, the store counts one row, but the persisted phase is
  \<open>disconnected\<close>, not \<open>connected\<close>: nothing in the program ever writes
  \<open>connection_status\<close>.  And \<open>last_id\<close> is the text \<open>undefined\<close>, which
  identifies no message.
\<close>

theorem first_message_phase_counterexample:
  "fst (initialize one_message_env empty_database no_files state_path) = Some started_app \<and>
   countEmails (app_db (on_mail one_message_env state_path started_app)) = Inr 1 \<and>
   readState (app_fs (on_mail one_message_env state_path started_app)) state_path
     = Inr state_after_first \<and>
   jget state_after_first ''last_id'' = Some (JStr ''undefined'') \<and>
   jget state_after_first ''connection_status'' = Some (JStr ''disconnected'') \<and>
   jget state_after_first ''connection_status'' \<noteq> Some (JStr ''connected'')"
proof -
  have "readState (app_fs (on_mail one_message_env state_path started_app)) state_path
     = Inr state_after_first"
    unfolding on_mail_first using valid_after_first by (simp add: readState_written)
  moreover have "countEmails (app_db (on_mail one_message_env state_path started_app)) = Inr 1"
    unfolding on_mail_first by (simp add: countEmails_def)
  moreover have "jget state_after_first ''last_id'' = Some (JStr ''undefined'')"
    "jget state_after_first ''connection_status'' = Some (JStr ''disconnected'')"
    by (simp_all add: state_after_first_def jget_def)
  ultimately show ?thesis using initialize_first_run by simp
qed

subsection \<open>Claims C3 and C4: first run and connection drops\<close>

text \<open>
  Claim C3 against the code.  The state file holds the initial state (\<open>last_uid\<close> is
  the sentinel 0) and the mailbox holds three messages from before the start.  On one
  \<open>mail\<close> event the handler fetches and processes all three, and stores a row: the
  whole mailbox, not only what arrived since the start.
\<close>

theorem on_mail_first_run_fetches_history:
  "readState (app_fs started_app) state_path = Inr INITIAL_STATE \<and>
   imap_search example_env = Inr [1, 2, 3] \<and>
   fetched_uids (effects (on_mail example_env state_path started_app)) = [1, 2, 3] \<and>
   map row_id (rows (app_db (on_mail example_env state_path started_app))) = [''undefined'']"
proof -
  let ?a = "started_app\<lparr>effects := effects started_app
      @ [Log DEBUG ''New mail event'', ImapSearch, Log INFO ''Processing new emails'']\<rparr>"
  have s: "\<not> isShuttingDown started_app" by (simp add: started_app_def)
  have q: "imap_search example_env = Inr [1, 2, 3]" by (simp add: example_env_def)
  have r: "readState (app_fs started_app) state_path = Inr INITIAL_STATE"
    by (simp add: started_app_def read_first_run)
  have l: "jget INITIAL_STATE ''last_uid'' = Some (JInt 0)"
    by (simp add: INITIAL_STATE_def jget_def)
  have all: "filter (\<lambda>uid. 0 < uid) [1, 2, 3 :: int] = [1, 2, 3]" by simp
  then have ne: "filter (\<lambda>uid. 0 < uid) [1, 2, 3 :: int] \<noteq> []" by simp
  have "app_db ?a = \<lparr>is_open = True, rows = []\<rparr>" "app_fs ?a = first_run_fs"
    by (simp_all add: started_app_def)
  from process_each_example [OF this] obtain fx2 fx3 where
    run: "process_each example_env state_path [1, 2, 3] ?a =
      ?a\<lparr>app_db := \<lparr>is_open = True, rows = [row_of (example_record 1)]\<rparr>,
        app_fs := (first_run_fs(state_path @ ''.tmp'' := None))
                    (state_path \<mapsto> Json state_after_first),
        effects := effects ?a
          @ [Log DEBUG ''Processing email'', ImapFetch 1, Log INFO ''Email processed successfully'']
          @ fx2 @ fx3\<rparr>"
    and f: "fetched_uids fx2 = [2]" "fetched_uids fx3 = [3]" by blast
  have om: "on_mail example_env state_path started_app
      = process_each example_env state_path [1, 2, 3] ?a"
    unfolding on_mail_run [OF s q r l ne] all ..
  have "fetched_uids (effects (on_mail example_env state_path started_app)) = [1, 2, 3]"
    unfolding om run by (simp add: fetched_uids_append f started_app_def)
  moreover have "map row_id (rows (app_db (on_mail example_env state_path started_app)))
      = [''undefined'']"
    unfolding om run by (simp add: row_of_def example_record_def jget_def)
  ultimately show ?thesis using r q by simp
qed

text \<open>
  Claim C4 as stated fails.  The started application has connected once.  After the
  \<open>end\<close> event, and after the \<open>error\<close> event, the number of connection attempts
  is still one, so there is no reconnect attempt whose delay could be 1s; and the state
  file still holds the initial state, whose phase is \<open>disconnected\<close>, never
  \<open>reconnecting\<close>.
\<close>

theorem drop_reconnect_counterexample:
  "connect_attempts (effects started_app) = 1 \<and>
   connect_attempts (effects (on_end started_app)) = 1 \<and>
   connect_attempts (effects (on_error started_app)) = 1 \<and>
   readState (app_fs (on_end started_app)) state_path = Inr INITIAL_STATE \<and>
   readState (app_fs (on_error started_app)) state_path = Inr INITIAL_STATE \<and>
   jget INITIAL_STATE ''connection_status'' = Some (JStr ''disconnected'') \<and>
   jget INITIAL_STATE ''connection_status'' \<noteq> Some (JStr ''reconnecting'') \<and>
   jget INITIAL_STATE ''last_error'' = Some JNull"
  by (simp add: connect_attempts_def on_end_def on_error_def started_app_def read_first_run)
     (simp add: INITIAL_STATE_def jget_def)

text \<open>
  Claim C4, as amended.  On the \<open>end\<close> and on the \<open>error\<close> event the program marks
  the client disconnected and writes two log lines, and that is all: the files (the
  persisted phase and \<open>last_error\<close> among them) and the store are unchanged and no
  connection attempt is made.
\<close>

theorem drop_only_logs:
  "on_end a = a\<lparr>isConnected := False,
                 effects := effects a @ [Log WARN ''IMAP connection ended'',
                                         Log WARN ''IMAP connection ended'']\<rparr> \<and>
   on_error a = a\<lparr>isConnected := False,
                   effects := effects a @ [Log ERROR ''IMAP connection error'',
                                           Log ERROR ''IMAP error'']\<rparr> \<and>
   app_fs (on_end a) = app_fs a \<and> app_fs (on_error a) = app_fs a \<and>
   app_db (on_end a) = app_db a \<and> app_db (on_error a) = app_db a \<and>
   connect_attempts (effects (on_end a)) = connect_attempts (effects a) \<and>
   connect_attempts (effects (on_error a)) = connect_attempts (effects a)"
  by (simp add: on_end_def on_error_def connect_attempts_def)

subsection \<open>Claim C6: the same id twice at the push endpoint\<close>

lemma js_includes_self: "js_includes s s"
  by (cases s) simp_all

lemma valid_payload_fields:
  assumes "valid_payload p" and "jget p ''hasOwnProperty'' = None"
  shows "is_message p"
    and "validatePayload p = Inr Valid"
    and "truthy (jget p ''id'')"
proof -
  from assms(1) have s:
    "is_string (jget p ''id'')" "is_string (jget p ''thread_id'')"
    "is_string (jget p ''received_at'')" "is_string (jget p ''downloaded_at'')"
    "is_string (jget p ''from_address'')" "is_string (jget p ''to_address'')"
    "is_string (jget p ''subject'')" "is_string (jget p ''labels'')"
    "is_string (jget p ''body'')"
    and n:
    "\<not> missing_value (jget p ''id'')" "\<not> missing_value (jget p ''thread_id'')"
    "\<not> missing_value (jget p ''received_at'')" "\<not> missing_value (jget p ''downloaded_at'')"
    "\<not> missing_value (jget p ''from_address'')"
    "\<not> missing_value (jget p ''subject'')" "\<not> missing_value (jget p ''body'')"
    and c: "nullish (jget p ''cc_address'') \<or> is_string (jget p ''cc_address'')"
    by (simp_all add: valid_payload_def MANDATORY_FIELDS_def)
  from s c show "is_message p" by (simp add: is_message_def)
  from s n assms(2) show "validatePayload p = Inr Valid"
    by (simp add: validatePayload_def REQUIRED_FIELDS_def)
  from s(1) n(1) show "truthy (jget p ''id'')"
    by (cases "jget p ''id''" rule: is_string.cases) (auto simp: trim_def)
qed

text \<open>
  What the endpoint answers to a valid payload that has no field named
  \<open>hasOwnProperty\<close>: stored when the id is new, skipped when it is in the store.
\<close>

lemma post_stored:
  assumes "is_open db" and "valid_payload p" and "jget p ''hasOwnProperty'' = None"
    and "str_of (jget p ''id'') \<notin> set (map row_id (rows db))"
  shows "handleWebhookPost db (json_request p) =
           (\<lparr>statusCode = 200,
             json_body = formatSuccessResponse (JStr (str_of (jget p ''id''))) ''stored''\<rparr>,
            db\<lparr>rows := rows db @ [row_of p]\<rparr>)"
proof -
  note v = valid_payload_fields [OF assms(2,3)]
  from v(1) have "is_string (jget p ''id'')" by (simp add: is_message_def)
  then obtain i where i: "jget p ''id'' = Some (JStr i)"
    by (cases "jget p ''id''" rule: is_string.cases) simp_all
  from assms(1) v(1) assms(4) have "storeEmail db p = Inr (True, db\<lparr>rows := rows db @ [row_of p]\<rparr>)"
    by (rule storeEmail_new)
  with v(2,3) i show ?thesis
    by (simp add: handleWebhookPost_def json_request_def js_includes_self)
qed

lemma post_skipped:
  assumes "is_open db" and "valid_payload p" and "jget p ''hasOwnProperty'' = None"
    and "str_of (jget p ''id'') \<in> set (map row_id (rows db))"
  shows "handleWebhookPost db (json_request p) =
           (\<lparr>statusCode = 200,
             json_body = formatSuccessResponse (JStr (str_of (jget p ''id''))) ''skipped''\<rparr>,
            db)"
proof -
  note v = valid_payload_fields [OF assms(2,3)]
  from v(1) have s: "is_string (jget p ''id'')" by (simp add: is_message_def)
  then obtain i where i: "jget p ''id'' = Some (JStr i)"
    by (cases "jget p ''id''" rule: is_string.cases) simp_all
  from s have "sql_bind (jget p ''id'') = Inr (Some (str_of (jget p ''id'')))"
    by (rule is_string_bind)
  with assms(1,4) have "storeEmail db p = Inr (False, db)"
    by (simp add: storeEmail_duplicate)
  with v(2,3) i show ?thesis
    by (simp add: handleWebhookPost_def json_request_def js_includes_self)
qed

text \<open>
  Claim C6 against the code.  The two payloads are the example message with bodies
  \<open>A\<close> and \<open>B\<close>, each with one more field, named \<open>hasOwnProperty\<close>.  Both
  are valid (the nine mandatory fields are strings that are not blank) and carry the
  same id.  On an open, empty store the first request is answered 500
  \<open>DATABASE_ERROR\<close> and stores nothing, and so is the second: neither
  \<open>stored\<close> nor \<open>skipped\<close> is ever answered.
\<close>

theorem webhook_own_key_answered_500:
  "valid_payload (msg_extra_key ''A'') \<and> valid_payload (msg_extra_key ''B'') \<and>
   jget (msg_extra_key ''A'') ''id'' = Some (JStr ''m-1'') \<and>
   jget (msg_extra_key ''B'') ''id'' = Some (JStr ''m-1'') \<and>
   jget (msg_extra_key ''A'') ''body'' = Some (JStr ''A'') \<and>
   jget (msg_extra_key ''B'') ''body'' = Some (JStr ''B'') \<and>
   validatePayload (msg_extra_key ''A'') =
     Inl (TypeError ''payload.hasOwnProperty is not a function'') \<and>
   handleWebhookPost \<lparr>is_open = True, rows = []\<rparr> (json_request (msg_extra_key ''A'')) =
     (\<lparr>statusCode = 500,
       json_body = [(''status'', JStr ''error''), (''message'', JStr ''Database operation failed''),
                    (''code'', JStr ''DATABASE_ERROR'')]\<rparr>,
      \<lparr>is_open = True, rows = []\<rparr>) \<and>
   handleWebhookPost \<lparr>is_open = True, rows = []\<rparr> (json_request (msg_extra_key ''B'')) =
     (\<lparr>statusCode = 500,
       json_body = [(''status'', JStr ''error''), (''message'', JStr ''Database operation failed''),
                    (''code'', JStr ''DATABASE_ERROR'')]\<rparr>,
      \<lparr>is_open = True, rows = []\<rparr>)"
  by code_simp

subsection \<open>Claim C5: what the push endpoint validates\<close>

text \<open>
  Claim C5 against the code.  \<open>REQUIRED_FIELDS\<close> lacks \<open>to_address\<close> and
  \<open>labels\<close>.  A payload without \<open>to_address\<close> passes \<open>validatePayload\<close>, and is
  then refused by the table's \<open>NOT NULL\<close> constraint: the answer is 500
  \<open>DATABASE_ERROR\<close>, not a validation error.  A payload whose \<open>to_address\<close> is the
  empty string passes too, and is stored with answer 200.
\<close>

theorem validatePayload_accepts_missing_recipient:
  "jget msg_no_recipient ''to_address'' = None \<and>
   validatePayload msg_no_recipient = Inr Valid \<and>
   handleWebhookPost \<lparr>is_open = True, rows = []\<rparr> (json_request msg_no_recipient) =
     (\<lparr>statusCode = 500,
       json_body = [(''status'', JStr ''error''), (''message'', JStr ''Database operation failed''),
                    (''code'', JStr ''DATABASE_ERROR'')]\<rparr>,
      \<lparr>is_open = True, rows = []\<rparr>) \<and>
   jget msg_empty_recipient ''to_address'' = Some (JStr []) \<and>
   validatePayload msg_empty_recipient = Inr Valid \<and>
   fst (handleWebhookPost \<lparr>is_open = True, rows = []\<rparr> (json_request msg_empty_recipient)) =
     \<lparr>statusCode = 200,
      json_body = [(''status'', JStr ''success''), (''action'', JStr ''stored''),
                   (''id'', JStr ''m-1'')]\<rparr>"
  by code_simp

end
